theory Spec2Isabelle
  imports Complex_Main
begin

section \<open>HandSynth: values, tables and shared state (config.js)\<close>

text \<open>
  JavaScript numbers are modelled as reals, whole numbers as integers. The rounding of
  doubles is modelled where a value is fed back into the same computation frame after
  frame, in the visualizer's \<open>tick\<close>; the one-shot mappings of a hand position are
  computed exactly. The only non-finite number the modelled code produces is
  \<open>Infinity\<close>, returned by \<open>calculateDistance\<close> for a missing point.
\<close>

datatype error = TypeError | EngineError

text \<open>
  A note value is the result of \<open>notes[noteIndex] + noteOctave\<close>: a string, or the number
  \<open>NaN\<close> when the index lies outside the table (\<open>undefined + number\<close>).
\<close>

datatype jsval = Str string | NaN

datatype jsnum = Fin real | Infinity

record point =
  px :: real
  py :: real
  pz :: "real option"

record chord =
  chord_root :: "string option"
  chord_type :: string
  chord_notes :: "jsval list"
  chord_name :: string

text \<open>
  Calls to the audio engine (Tone.js). Times are offsets from \<open>Tone.now()\<close>;
  \<open>None\<close> is a call without a time argument. A volume write carries the gain that the
  code hands to \<open>Tone.gainToDb\<close>.
\<close>

datatype engine_call =
    MelodyAttack jsval real real
  | MelodyRelease "real option"
  | MelodyDispose
  | MelodyCreate
  | MelodySetVolume real
  | HarmonyAttack "jsval list" real real
  | HarmonyReleaseAll "real option"
  | HarmonyDispose
  | HarmonyCreate
  | HarmonySetVolume real
  | ReverbSetWet real

text \<open>The callbacks handed to \<open>setTimeout\<close> in synth.js.\<close>

datatype task =
    RebuildHarmony chord
  | AttackChord chord
  | StopChordCheck
  | RecreateSynths

record visualizer =
  pulseIntensity :: real
  reactiveScale :: real

text \<open>
  The shared \<open>state\<close> object of config.js, together with the module variables of synth.js
  (\<open>melodySynth\<close>, \<open>harmonySynth\<close>, \<open>reverb\<close>: whether the object exists), of
  blackhole.js (\<open>blackHole\<close>) and of the tracking module (\<open>canvasReady\<close>: canvasCtx and
  canvasElement are set), the calls the engine has accepted so far and the pending
  timers with their due times in milliseconds.
\<close>

record app_state =
  handDetected :: bool
  isLeftHandPresent :: bool
  isRightHandPresent :: bool
  lastRightHandY :: real
  lastLeftHandY :: real
  lastMelodyNote :: "jsval option"
  lastChord :: "chord option"
  audioStarted :: bool
  selectedScale :: string
  selectedRoot :: string
  octave :: int
  leftHandIsPlaying :: bool
  rightHandIsPlaying :: bool
  currentMelodyNote :: "jsval option"
  currentChord :: "chord option"
  leftHandVolume :: real
  rightHandVolume :: real
  melodySynth :: bool
  harmonySynth :: bool
  reverb :: bool
  blackHole :: "visualizer option"
  canvasReady :: bool
  engine_log :: "engine_call list"
  clock :: nat
  timers :: "(nat \<times> task) list"

definition MIN_PINCH_DIST :: real where
  "MIN_PINCH_DIST = 1 / 100"

definition MAX_PINCH_DIST :: real where
  "MAX_PINCH_DIST = 1 / 10"

definition scales :: "string \<Rightarrow> int list option" where
  "scales = map_of
     [(''major'', [0, 2, 4, 5, 7, 9, 11, 12]),
      (''minor'', [0, 2, 3, 5, 7, 8, 10, 12]),
      (''pentatonic'', [0, 2, 4, 7, 9, 12]),
      (''majorBlues'', [0, 3, 5, 6, 7, 10, 12]),
      (''minorBlues'', [0, 3, 5, 6, 7, 10, 12]),
      (''chromatic'', [0, 1, 2, 3, 4, 5, 6, 7, 8, 9, 10, 11, 12])]"

definition noteNames :: "string list" where
  "noteNames = [''C'', ''C#'', ''D'', ''D#'', ''E'', ''F'', ''F#'', ''G'', ''G#'', ''A'', ''A#'', ''B'']"

definition chordTypes :: "string \<Rightarrow> int list option" where
  "chordTypes = map_of
     [(''major'', [0, 4, 7]),
      (''minor'', [0, 3, 7]),
      (''minor7'', [0, 3, 7, 10]),
      (''diminished'', [0, 3, 6]),
      (''augmented'', [0, 4, 8]),
      (''sus4'', [0, 5, 7]),
      (''dominant7'', [0, 4, 7, 10]),
      (''major7'', [0, 4, 7, 11])]"

text \<open>
  \<open>scales\<close> is a plain object, so \<open>scales[id]\<close> for an \<open>id\<close> that is no key of its own
  still finds the members inherited from \<open>Object.prototype\<close>: functions, whose \<open>length\<close>
  is their number of parameters, and under \<open>__proto__\<close> the prototype object itself,
  which has no \<open>length\<close> (here \<open>None\<close>). None of them has numeric members.
\<close>

definition inherited_length :: "string \<Rightarrow> nat option option" where
  "inherited_length = map_of
     [(''constructor'', Some 1),
      (''__defineGetter__'', Some 2),
      (''__defineSetter__'', Some 2),
      (''hasOwnProperty'', Some 1),
      (''__lookupGetter__'', Some 1),
      (''__lookupSetter__'', Some 1),
      (''isPrototypeOf'', Some 1),
      (''propertyIsEnumerable'', Some 1),
      (''toString'', Some 0),
      (''valueOf'', Some 0),
      (''__proto__'', None),
      (''toLocaleString'', Some 0)]"

text \<open>The initial \<open>state\<close> of config.js, before audio, canvas and visualizer exist.\<close>

definition initial_state :: app_state where
  "initial_state =
     \<lparr>handDetected = False, isLeftHandPresent = False, isRightHandPresent = False,
      lastRightHandY = 0, lastLeftHandY = 0, lastMelodyNote = None, lastChord = None,
      audioStarted = False, selectedScale = ''major'', selectedRoot = ''C'', octave = 4,
      leftHandIsPlaying = False, rightHandIsPlaying = False,
      currentMelodyNote = None, currentChord = None,
      leftHandVolume = 1 / 2, rightHandVolume = 1 / 2,
      melodySynth = False, harmonySynth = False, reverb = False,
      blackHole = None, canvasReady = False,
      engine_log = [], clock = 0, timers = []\<rparr>"

text \<open>
  The state once \<open>setupAudio\<close>, \<open>setupHandTracking\<close> and \<open>initBlackHole\<close> have run and
  the user has started audio: both voices idle, nothing sent to the engine yet.
\<close>

definition ready_state :: app_state where
  "ready_state =
     initial_state\<lparr>audioStarted := True, melodySynth := True, harmonySynth := True,
       reverb := True, canvasReady := True,
       blackHole := Some \<lparr>pulseIntensity = 0, reactiveScale = 1\<rparr>\<rparr>"

section \<open>Gesture math (utils/math.js)\<close>

definition mapRange :: "real \<Rightarrow> real \<Rightarrow> real \<Rightarrow> real \<Rightarrow> real \<Rightarrow> real" where
  "mapRange value inMin inMax outMin outMax =
     (let v = max inMin (min inMax value)
      in ((v - inMin) * (outMax - outMin)) / (inMax - inMin) + outMin)"

text \<open>
  \<open>calculateDistance\<close>: a missing point (\<open>null\<close> or \<open>undefined\<close>) is \<open>None\<close>; a missing
  \<open>z\<close> counts as 0.
\<close>

definition calculateDistance :: "point option \<Rightarrow> point option \<Rightarrow> jsnum" where
  "calculateDistance point1 point2 =
     (case (point1, point2) of
        (Some p1, Some p2) \<Rightarrow>
          (let dx = px p1 - px p2;
               dy = py p1 - py p2;
               dz = (case pz p1 of None \<Rightarrow> 0 | Some z \<Rightarrow> z)
                  - (case pz p2 of None \<Rightarrow> 0 | Some z \<Rightarrow> z)
           in Fin (sqrt (dx * dx + dy * dy + dz * dz)))
      | _ \<Rightarrow> Infinity)"

text \<open>
  Double-precision arithmetic. An operation on doubles returns the exact result rounded
  to the nearest double, ties going to the even significand. \<open>round_double\<close> does this
  for a real of magnitude below \<open>2 ^ 1024\<close> (larger results, which are \<open>Infinity\<close> in
  JavaScript, do not arise from the values modelled here): \<open>binade a\<close> is the exponent
  \<open>e\<close> with \<open>2 ^ e \<le> a < 2 ^ (e + 1)\<close>, held at \<open>-1022\<close> for the subnormal numbers, and
  the spacing of the doubles there is \<open>2 ^ (e - 52)\<close>. \<open>MIN_VALUE\<close> is the smallest
  positive double, \<open>Number.MIN_VALUE\<close>.
\<close>

definition round_half_even :: "real \<Rightarrow> int" where
  "round_half_even y =
     (let f = \<lfloor>y\<rfloor>; d = y - of_int f
      in if d < 1 / 2 then f
         else if 1 / 2 < d then f + 1
         else if even f then f else f + 1)"

fun binade_down :: "nat \<Rightarrow> int \<Rightarrow> real \<Rightarrow> int" where
  "binade_down 0 e z = e"
| "binade_down (Suc n) e z = (if 2 powi e \<le> z then e else binade_down n (e - 1) z)"

fun binade_up :: "nat \<Rightarrow> int \<Rightarrow> real \<Rightarrow> int" where
  "binade_up 0 e z = e"
| "binade_up (Suc n) e z = (if z < 2 powi (e + 1) then e else binade_up n (e + 1) z)"

definition binade :: "real \<Rightarrow> int" where
  "binade a = (if 1 \<le> a then binade_up 1023 0 a else binade_down 1021 (- 1) a)"

definition round_double :: "real \<Rightarrow> real" where
  "round_double z =
     (if z = 0 then 0
      else (let a = \<bar>z\<bar>; u = 2 powi (binade a - 52)
            in sgn z * (of_int (round_half_even (a / u)) * u)))"

definition MIN_VALUE :: real where
  "MIN_VALUE = 2 powi (- 1074)"

text \<open>\<open>lerp\<close>, on doubles: \<open>start * (1 - t) + end * t\<close>.\<close>

definition lerp :: "real \<Rightarrow> real \<Rightarrow> real \<Rightarrow> real" where
  "lerp start end' t =
     round_double (round_double (start * round_double (1 - t)) + round_double (end' * t))"

text \<open>The remainder operator \<open>%\<close> on whole numbers: the sign follows the dividend.\<close>

definition js_rem :: "int \<Rightarrow> int \<Rightarrow> int" where
  "js_rem a b = sgn a * (\<bar>a\<bar> mod \<bar>b\<bar>)"

text \<open>\<open>Array.prototype.indexOf\<close>: the first index of the element, or \<open>-1\<close>.\<close>

fun indexOf :: "'a list \<Rightarrow> 'a \<Rightarrow> int" where
  "indexOf [] x = -1"
| "indexOf (y # ys) x =
     (if x = y then 0 else (let r = indexOf ys x in if r < 0 then -1 else r + 1))"

text \<open>Conversion of a whole number to its decimal text, as string concatenation does.\<close>

fun show_nat :: "nat \<Rightarrow> string" where
  "show_nat n =
     (if n < 10 then [''0123456789'' ! n]
      else show_nat (n div 10) @ [''0123456789'' ! (n mod 10)])"

definition show_int :: "int \<Rightarrow> string" where
  "show_int i = (if i < 0 then ''-'' @ show_nat (nat (- i)) else show_nat (nat i))"

text \<open>\<open>notes[i]\<close>: \<open>undefined\<close> (here \<open>None\<close>) outside the table.\<close>

definition notes_at :: "int \<Rightarrow> string option" where
  "notes_at i = (if 0 \<le> i \<and> i < int (length noteNames) then Some (noteNames ! nat i) else None)"

text \<open>\<open>notes[noteIndex] + noteOctave\<close>.\<close>

definition note_text :: "int \<Rightarrow> int \<Rightarrow> jsval" where
  "note_text noteIndex noteOctave =
     (case notes_at noteIndex of
        Some n \<Rightarrow> Str (n @ show_int noteOctave)
      | None \<Rightarrow> NaN)"

section \<open>Scale and chord theory (audio/music-theory.js)\<close>

text \<open>
  \<open>getNoteFromPosition\<close>, in two steps: the scale-step position read off the vertical
  coordinate (inverted: a lower \<open>y\<close> is a higher position), and the note at a position.
  The position is a whole number in 0..14 because \<open>mapRange\<close> clamps, so the index into
  the scale row is within the row. An identifier that names neither a key of \<open>scales\<close>
  nor an inherited member gives \<open>undefined\<close>, and reading its \<open>length\<close> throws a
  TypeError. For an inherited member \<open>scaleArray[indexInScale]\<close> is \<open>undefined\<close>, the
  arithmetic yields NaN throughout, and the result \<open>notes[NaN] + NaN\<close> is NaN.
\<close>

definition melodyPosition :: "real \<Rightarrow> int" where
  "melodyPosition y = \<lfloor>mapRange y 0 1 14 0\<rfloor>"

definition noteAtPosition :: "int \<Rightarrow> string \<Rightarrow> app_state \<Rightarrow> error + jsval" where
  "noteAtPosition position scale s =
     (case scales scale of
        None \<Rightarrow>
          (case inherited_length scale of
             None \<Rightarrow> Inl TypeError
           | Some len \<Rightarrow> Inr NaN)
      | Some scaleArray \<Rightarrow>
          (let octaveOffset = position div int (length scaleArray);
               indexInScale = js_rem position (int (length scaleArray));
               semitones = scaleArray ! nat indexInScale;
               rootIndex = indexOf noteNames (selectedRoot s);
               midiBase = 60 + rootIndex;
               midiNote = midiBase + semitones + (octave s - 4 + octaveOffset) * 12;
               noteIndex = js_rem midiNote 12;
               noteOctave = midiNote div 12 - 1
           in Inr (note_text noteIndex noteOctave)))"

definition getNoteFromPosition :: "real \<Rightarrow> string \<Rightarrow> app_state \<Rightarrow> (error + jsval) \<times> app_state" where
  "getNoteFromPosition y scale s =
     (let s1 = s\<lparr>lastRightHandY := y\<rparr>;
          position = melodyPosition y
      in (noteAtPosition position scale s1, s1))"

text \<open>The chord-type row chosen by the selected scale, and the parity fallback.\<close>

definition chordTypeFor :: "string \<Rightarrow> int \<Rightarrow> string" where
  "chordTypeFor scale scaleDegree =
     (if scale = ''major'' then
        [''major'', ''minor'', ''minor'', ''major'', ''dominant7'', ''minor'', ''diminished'']
          ! nat (js_rem scaleDegree 7)
      else if scale = ''minor'' then
        [''minor'', ''diminished'', ''major'', ''minor'', ''minor'', ''major'', ''major'']
          ! nat (js_rem scaleDegree 7)
      else if scale = ''majorBlues'' then
        [''dominant7'', ''diminished'', ''dominant7'', ''diminished'', ''dominant7'', ''minor'',
         ''diminished''] ! nat (js_rem scaleDegree 7)
      else if scale = ''minorBlues'' then
        [''minor7'', ''dominant7'', ''minor7'', ''diminished'', ''minor7'', ''diminished'',
         ''dominant7''] ! nat (js_rem scaleDegree 7)
      else if js_rem scaleDegree 2 = 0 then ''major'' else ''minor'')"

definition chordNameMap :: "string \<Rightarrow> string option" where
  "chordNameMap = map_of
     [(''major'', ''''), (''minor'', ''m''), (''minor7'', ''m7''), (''diminished'', ''dim''),
      (''augmented'', ''aug''), (''sus4'', ''sus4''), (''dominant7'', ''7''),
      (''major7'', ''maj7'')]"

text \<open>
  The display name \<open>`${chordRoot}${chordNameMap[chordType] || chordType}`\<close>: an empty or
  missing symbol is falsy, so the type itself is appended then.
\<close>

definition chordName :: "string option \<Rightarrow> string \<Rightarrow> string" where
  "chordName chordRoot chordType =
     (case chordRoot of None \<Rightarrow> ''undefined'' | Some r \<Rightarrow> r)
     @ (case chordNameMap chordType of
          None \<Rightarrow> chordType
        | Some symbol \<Rightarrow> if symbol = [] then chordType else symbol)"

text \<open>
  \<open>getChordFromPosition\<close>, in the same two steps. The scale row is read from
  \<open>state.selectedScale\<close>; as above an identifier that names nothing throws at
  \<open>scaleArray.length\<close>. The chord type is always a key of \<open>chordTypes\<close>, so
  \<open>intervals.forEach\<close> has an array to run over. For an inherited member the scale
  degree is \<open>position % length\<close> (NaN when the length is 0 or missing, and NaN is not
  even), the chord root is \<open>notes[NaN]\<close>, that is \<open>undefined\<close>, and every chord note is NaN.
\<close>

definition chordPosition :: "real \<Rightarrow> int" where
  "chordPosition y = \<lfloor>mapRange y 0 1 7 0\<rfloor>"

definition chordAtPosition :: "int \<Rightarrow> app_state \<Rightarrow> error + chord" where
  "chordAtPosition position s =
     (case scales (selectedScale s) of
        None \<Rightarrow>
          (case inherited_length (selectedScale s) of
             None \<Rightarrow> Inl TypeError
           | Some len \<Rightarrow>
               (let even_degree =
                      (case len of
                         None \<Rightarrow> False
                       | Some n \<Rightarrow> 0 < n \<and> js_rem (js_rem position (int n)) 2 = 0);
                    chordType = (if even_degree then ''major'' else ''minor'')
                in case chordTypes chordType of
                     None \<Rightarrow> Inl TypeError
                   | Some intervals \<Rightarrow>
                       Inr \<lparr>chord_root = None, chord_type = chordType,
                             chord_notes = map (\<lambda>interval. NaN) intervals,
                             chord_name = chordName None chordType\<rparr>))
      | Some scaleArray \<Rightarrow>
          (let scaleDegree = js_rem position (int (length scaleArray));
               rootIndex = indexOf noteNames (selectedRoot s);
               degreeOffset = scaleArray ! nat scaleDegree;
               chordRootIndex = js_rem (rootIndex + degreeOffset) 12;
               chordRoot = notes_at chordRootIndex;
               chordType = chordTypeFor (selectedScale s) scaleDegree
           in case chordTypes chordType of
                None \<Rightarrow> Inl TypeError
              | Some intervals \<Rightarrow>
                  (let octaveOffset = position div 7;
                       midiBase = 48 + chordRootIndex + (octave s - 4 + octaveOffset) * 12;
                       chordNotes =
                         map (\<lambda>interval.
                                let midiNote = midiBase + interval
                                in note_text (js_rem midiNote 12) (midiNote div 12 - 1))
                             intervals
                   in Inr \<lparr>chord_root = chordRoot, chord_type = chordType,
                            chord_notes = chordNotes,
                            chord_name = chordName chordRoot chordType\<rparr>)))"

definition getChordFromPosition :: "real \<Rightarrow> app_state \<Rightarrow> (error + chord) \<times> app_state" where
  "getChordFromPosition y s =
     (let s1 = s\<lparr>lastLeftHandY := y\<rparr>;
          position = chordPosition y
      in (chordAtPosition position s1, s1))"

section \<open>Effects: engine calls, exceptions, timers\<close>

text \<open>
  An operation takes the state and returns the updated state with either a thrown error
  or a normal return. The engine is a parameter: \<open>fails c\<close> says that the call \<open>c\<close>
  throws. A call that throws leaves no trace in \<open>engine_log\<close>.
\<close>

type_synonym engine = "engine_call \<Rightarrow> bool"

type_synonym operation = "app_state \<Rightarrow> (error + unit) \<times> app_state"

definition reliable :: engine where
  "reliable = (\<lambda>c. False)"

definition engine_do :: "engine \<Rightarrow> engine_call \<Rightarrow> operation" where
  "engine_do fails c s =
     (if fails c then (Inl EngineError, s)
      else (Inr (), s\<lparr>engine_log := engine_log s @ [c]\<rparr>))"

definition pure_step :: "(app_state \<Rightarrow> app_state) \<Rightarrow> operation" where
  "pure_step f s = (Inr (), f s)"

text \<open>Statement sequencing: a throw skips what follows.\<close>

definition and_then :: "operation \<Rightarrow> operation \<Rightarrow> operation" where
  "and_then m k s = (case m s of (Inl e, s') \<Rightarrow> (Inl e, s') | (Inr u, s') \<Rightarrow> k s')"

text \<open>\<open>try { m } catch (error) { console.error(...) }\<close>: the error ends there.\<close>

definition try_catch :: "operation \<Rightarrow> operation" where
  "try_catch m s = (case m s of (Inl e, s') \<Rightarrow> (Inr (), s') | (Inr u, s') \<Rightarrow> (Inr u, s'))"

definition setTimeout :: "task \<Rightarrow> nat \<Rightarrow> app_state \<Rightarrow> app_state" where
  "setTimeout callback ms s = s\<lparr>timers := timers s @ [(clock s + ms, callback)]\<rparr>"

section \<open>Reactive visualizer (visual/blackhole.js)\<close>

text \<open>\<open>BlackHole.pulse\<close> overwrites the intensity with whatever it is given.\<close>

definition pulse :: "real \<Rightarrow> visualizer \<Rightarrow> visualizer" where
  "pulse intensity v = v\<lparr>pulseIntensity := intensity\<rparr>"

definition pulseBlackHole :: "real \<Rightarrow> app_state \<Rightarrow> app_state" where
  "pulseBlackHole intensity s =
     (case blackHole s of
        None \<Rightarrow> s
      | Some v \<Rightarrow> s\<lparr>blackHole := Some (pulse intensity v)\<rparr>)"

text \<open>
  The state change of \<open>BlackHole.tick\<close> (drawing and ring or particle motion left out):
  \<open>playing\<close> is \<open>state.leftHandIsPlaying || state.rightHandIsPlaying\<close> at that frame.
  The literals 0.95, 1.2 and 0.05 are the doubles nearest to them, and every product,
  difference and sum is rounded.
\<close>

definition tick :: "bool \<Rightarrow> visualizer \<Rightarrow> visualizer" where
  "tick playing v =
     (let v1 = v\<lparr>pulseIntensity := round_double (pulseIntensity v * round_double (95 / 100))\<rparr>
      in if playing
         then v1\<lparr>reactiveScale :=
                  lerp (reactiveScale v1) (round_double (12 / 10)) (round_double (5 / 100))\<rparr>
         else v1\<lparr>reactiveScale := lerp (reactiveScale v1) 1 (round_double (5 / 100))\<rparr>)"

text \<open>Successive render frames, one play flag per frame.\<close>

fun ticks :: "bool list \<Rightarrow> visualizer \<Rightarrow> visualizer" where
  "ticks [] v = v"
| "ticks (playing # rest) v = ticks rest (tick playing v)"

section \<open>Voice controller (audio/synth.js)\<close>

text \<open>The strict inequality \<open>!==\<close> on note values; \<open>None\<close> is \<open>null\<close>, and NaN differs from itself.\<close>

fun strict_neq :: "jsval option \<Rightarrow> jsval option \<Rightarrow> bool" where
  "strict_neq None None = False"
| "strict_neq (Some (Str a)) (Some (Str b)) = (a \<noteq> b)"
| "strict_neq x y = True"

text \<open>
  \<open>JSON.stringify\<close> of an array of note values: strings are quoted, with the quote and
  the backslash escaped, and NaN is written \<open>null\<close>.
\<close>

definition json_escape :: "char \<Rightarrow> string" where
  "json_escape c =
     (if c = CHR 0x22 then [CHR 0x5C, CHR 0x22]
      else if c = CHR 0x5C then [CHR 0x5C, CHR 0x5C]
      else [c])"

fun json_value :: "jsval \<Rightarrow> string" where
  "json_value (Str s) = [CHR 0x22] @ concat (map json_escape s) @ [CHR 0x22]"
| "json_value NaN = ''null''"

fun json_join :: "string list \<Rightarrow> string" where
  "json_join [] = []"
| "json_join [x] = x"
| "json_join (x # y # ys) = x @ '','' @ json_join (y # ys)"

definition JSON_stringify :: "jsval list \<Rightarrow> string" where
  "JSON_stringify xs = ''['' @ json_join (map json_value xs) @ '']''"

definition playMelodyNote :: "engine \<Rightarrow> jsval \<Rightarrow> operation" where
  "playMelodyNote fails note s =
     (if \<not> audioStarted s \<or> \<not> melodySynth s then (Inr (), s)
      else
        (let noteChanged = strict_neq (Some note) (lastMelodyNote s);
             s1 = s\<lparr>lastMelodyNote := Some note\<rparr>
         in try_catch
              (if \<not> rightHandIsPlaying s1 then
                 and_then (engine_do fails (MelodyAttack note 0 (8 / 10)))
                   (pure_step (\<lambda>s2. pulseBlackHole 1
                      (s2\<lparr>rightHandIsPlaying := True, currentMelodyNote := Some note\<rparr>)))
               else if noteChanged then
                 and_then (engine_do fails (MelodyRelease (Some (2 / 100))))
                   (and_then (engine_do fails (MelodyAttack note (7 / 100) (7 / 10)))
                      (pure_step (\<lambda>s2. pulseBlackHole (8 / 10)
                         (s2\<lparr>currentMelodyNote := Some note\<rparr>))))
               else pure_step (\<lambda>s2. s2))
              s1))"

definition chordChanged :: "chord \<Rightarrow> app_state \<Rightarrow> bool" where
  "chordChanged c s =
     (case lastChord s of
        None \<Rightarrow> True
      | Some l \<Rightarrow> JSON_stringify (chord_notes c) \<noteq> JSON_stringify (chord_notes l))"

definition playChord :: "engine \<Rightarrow> chord \<Rightarrow> operation" where
  "playChord fails c s =
     (if \<not> audioStarted s \<or> \<not> harmonySynth s then (Inr (), s)
      else
        (let changed = chordChanged c s
         in try_catch
              (if \<not> leftHandIsPlaying s then
                 and_then (engine_do fails (HarmonyAttack (chord_notes c) 0 (6 / 10)))
                   (pure_step (\<lambda>s2. pulseBlackHole 1
                      (s2\<lparr>leftHandIsPlaying := True, currentChord := Some c,
                          lastChord := Some c\<rparr>)))
               else if changed then
                 and_then (engine_do fails (HarmonyReleaseAll (Some (- (5 / 1000)))))
                   (pure_step (setTimeout (RebuildHarmony c) 150))
               else pure_step (\<lambda>s2. s2))
              s))"

text \<open>The pulse sent once a changed chord has been attacked.\<close>

definition changePulse :: "chord \<Rightarrow> real" where
  "changePulse c =
     (if CHR ''7'' \<in> set (chord_type c) then 1
      else if chord_type c = ''diminished'' then 12 / 10
      else 8 / 10)"

definition stopMelody :: "engine \<Rightarrow> operation" where
  "stopMelody fails s =
     (if rightHandIsPlaying s \<and> melodySynth s then
        and_then (engine_do fails (MelodyRelease None))
          (pure_step (\<lambda>s2. s2\<lparr>rightHandIsPlaying := False, currentMelodyNote := None\<rparr>)) s
      else (Inr (), s))"

definition stopChord :: "engine \<Rightarrow> operation" where
  "stopChord fails s =
     (if leftHandIsPlaying s \<and> harmonySynth s then
        and_then (engine_do fails (HarmonyReleaseAll None))
          (pure_step (\<lambda>s2. (setTimeout StopChordCheck 100 s2)
             \<lparr>leftHandIsPlaying := False, currentChord := None\<rparr>)) s
      else (Inr (), s))"

definition updateSynths :: "engine \<Rightarrow> operation" where
  "updateSynths fails s =
     try_catch
       (and_then (if melodySynth s then engine_do fails (MelodyRelease None)
                  else pure_step (\<lambda>s2. s2))
          (and_then (if harmonySynth s then engine_do fails (HarmonyReleaseAll None)
                     else pure_step (\<lambda>s2. s2))
             (pure_step (setTimeout RecreateSynths 100))))
       s"

definition setVolume :: "engine \<Rightarrow> string \<Rightarrow> real \<Rightarrow> operation" where
  "setVolume fails hand volume s =
     (if \<not> audioStarted s then (Inr (), s)
      else
        (let v = max 0 (min volume 1)
         in try_catch
              (if hand = ''left'' then
                 (if rightHandVolume s \<noteq> v then
                    and_then (pure_step (\<lambda>s2. s2\<lparr>rightHandVolume := v\<rparr>))
                      (if harmonySynth s then engine_do fails (HarmonySetVolume (v * (6 / 10)))
                       else pure_step (\<lambda>s2. s2))
                  else pure_step (\<lambda>s2. s2))
               else if hand = ''right'' then
                 (if leftHandVolume s \<noteq> v then
                    and_then (pure_step (\<lambda>s2. s2\<lparr>leftHandVolume := v\<rparr>))
                      (if melodySynth s then engine_do fails (MelodySetVolume v)
                       else pure_step (\<lambda>s2. s2))
                  else pure_step (\<lambda>s2. s2))
               else pure_step (\<lambda>s2. s2))
              s))"

definition setReverb :: "engine \<Rightarrow> string \<Rightarrow> real \<Rightarrow> operation" where
  "setReverb fails hand wetLevel s =
     (if \<not> audioStarted s \<or> \<not> reverb s then (Inr (), s)
      else
        (let w = max 0 (min wetLevel 1)
         in try_catch (engine_do fails (ReverbSetWet w)) s))"

text \<open>
  The timer callbacks. They run from the event loop, outside every \<open>try\<close> block of the
  function that scheduled them.
\<close>

fun run_task :: "engine \<Rightarrow> task \<Rightarrow> operation" where
  "run_task fails (RebuildHarmony c) =
     and_then (engine_do fails HarmonyDispose)
       (and_then (engine_do fails HarmonyCreate)
          (and_then (\<lambda>s. engine_do fails (HarmonySetVolume (leftHandVolume s * (6 / 10))) s)
             (pure_step (setTimeout (AttackChord c) 50))))"
| "run_task fails (AttackChord c) =
     and_then (engine_do fails (HarmonyAttack (chord_notes c) (5 / 100) (6 / 10)))
       (pure_step (\<lambda>s. pulseBlackHole (changePulse c)
          (s\<lparr>currentChord := Some c, lastChord := Some c, leftHandIsPlaying := True\<rparr>)))"
| "run_task fails StopChordCheck =
     (\<lambda>s. if leftHandIsPlaying s \<and> harmonySynth s then
             and_then (engine_do fails HarmonyDispose) (engine_do fails HarmonyCreate) s
           else (Inr (), s))"
| "run_task fails RecreateSynths =
     (\<lambda>s. and_then (if melodySynth s then engine_do fails MelodyDispose
                     else pure_step (\<lambda>s2. s2))
            (and_then (if harmonySynth s then engine_do fails HarmonyDispose
                       else pure_step (\<lambda>s2. s2))
               (and_then (engine_do fails MelodyCreate)
                  (and_then (pure_step (\<lambda>s2. s2\<lparr>melodySynth := True\<rparr>))
                     (and_then (engine_do fails HarmonyCreate)
                        (and_then (pure_step (\<lambda>s2. s2\<lparr>harmonySynth := True\<rparr>))
                           (and_then (\<lambda>s2. engine_do fails
                                        (MelodySetVolume (rightHandVolume s2)) s2)
                              (and_then (\<lambda>s2. engine_do fails
                                           (HarmonySetVolume (leftHandVolume s2 * (6 / 10))) s2)
                                 (pure_step (\<lambda>s2. s2\<lparr>rightHandIsPlaying := False,
                                    leftHandIsPlaying := False, currentMelodyNote := None,
                                    currentChord := None\<rparr>))))))))) s)"

text \<open>
  The event loop runs the pending timer that is due first (the older one among equals)
  and moves the clock to its due time; an error thrown by the callback is reported and
  goes no further.
\<close>

fun first_due :: "(nat \<times> task) \<Rightarrow> (nat \<times> task) list \<Rightarrow> (nat \<times> task)" where
  "first_due best [] = best"
| "first_due best (t # ts) = first_due (if fst t < fst best then t else best) ts"

definition fire_next :: "engine \<Rightarrow> app_state \<Rightarrow> app_state" where
  "fire_next fails s =
     (case timers s of
        [] \<Rightarrow> s
      | t # ts \<Rightarrow>
          (let due = first_due t ts;
               s1 = s\<lparr>clock := max (clock s) (fst due), timers := remove1 due (timers s)\<rparr>
           in snd (run_task fails (snd due) s1)))"

section \<open>Gesture-to-control mapper and frame handler (tracking module)\<close>

text \<open>
  Arithmetic on a distance that may be \<open>Infinity\<close>: subtracting a finite number, dividing
  by the positive constant \<open>MAX_PINCH_DIST - MIN_PINCH_DIST\<close>, and \<open>Math.min\<close> with a
  finite number.
\<close>

fun jsnum_sub :: "jsnum \<Rightarrow> real \<Rightarrow> jsnum" where
  "jsnum_sub (Fin a) b = Fin (a - b)"
| "jsnum_sub Infinity b = Infinity"

fun jsnum_div_pos :: "jsnum \<Rightarrow> real \<Rightarrow> jsnum" where
  "jsnum_div_pos (Fin a) c = Fin (a / c)"
| "jsnum_div_pos Infinity c = Infinity"

fun jsnum_min :: "jsnum \<Rightarrow> real \<Rightarrow> real" where
  "jsnum_min (Fin a) b = min a b"
| "jsnum_min Infinity b = b"

definition mapPinchToReverb :: "jsnum \<Rightarrow> real" where
  "mapPinchToReverb pinchDist =
     (let wetLevel = jsnum_div_pos (jsnum_sub pinchDist MIN_PINCH_DIST)
                       (MAX_PINCH_DIST - MIN_PINCH_DIST)
      in max 0 (jsnum_min wetLevel 1))"

definition mapFingerToVolume :: "jsnum \<Rightarrow> real" where
  "mapFingerToVolume fingerDist =
     (let volume = jsnum_div_pos (jsnum_sub fingerDist MIN_PINCH_DIST)
                     (MAX_PINCH_DIST - MIN_PINCH_DIST)
      in max 0 (jsnum_min volume 1))"

text \<open>\<open>landmarks[i]\<close>: \<open>undefined\<close> past the end of the array.\<close>

definition landmark_at :: "point option list \<Rightarrow> nat \<Rightarrow> point option" where
  "landmark_at landmarks i = (if i < length landmarks then landmarks ! i else None)"

text \<open>
  The canvas drawing helpers change nothing that is modelled, but they read the
  coordinates of the points they are given and throw a TypeError on a missing one.
\<close>

definition draw_with :: "point option list \<Rightarrow> operation" where
  "draw_with points s = (if None \<in> set points then (Inl TypeError, s) else (Inr (), s))"

definition processLeftHand :: "engine \<Rightarrow> point option list \<Rightarrow> operation" where
  "processLeftHand fails landmarks s =
     (let s1 = s\<lparr>isLeftHandPresent := True\<rparr>
      in if length landmarks > 8 then
           (case landmark_at landmarks 0 of
              None \<Rightarrow> (Inr (), s1)
            | Some wrist \<Rightarrow>
                (let thumbTip = landmark_at landmarks 4;
                     indexTip = landmark_at landmarks 8;
                     pinchDist = calculateDistance thumbTip indexTip;
                     middleFinger = landmark_at landmarks 12;
                     fingerDist = calculateDistance middleFinger thumbTip
                 in and_then (setReverb fails ''left'' (mapPinchToReverb pinchDist))
                      (and_then (setVolume fails ''left'' (mapFingerToVolume fingerDist))
                         (\<lambda>s2. case getChordFromPosition (py wrist) s2 of
                                  (Inl e, s3) \<Rightarrow> (Inl e, s3)
                                | (Inr c, s3) \<Rightarrow>
                                    and_then (playChord fails c)
                                      (and_then (draw_with [Some wrist])
                                         (and_then (draw_with [thumbTip, indexTip])
                                            (draw_with [thumbTip, middleFinger]))) s3))
                      s1))
         else (Inr (), s1))"

definition processRightHand :: "engine \<Rightarrow> point option list \<Rightarrow> operation" where
  "processRightHand fails landmarks s =
     (let s1 = s\<lparr>isRightHandPresent := True\<rparr>
      in if length landmarks > 8 then
           (case landmark_at landmarks 0 of
              None \<Rightarrow> (Inr (), s1)
            | Some wrist \<Rightarrow>
                (let thumbTip = landmark_at landmarks 4;
                     indexTip = landmark_at landmarks 8;
                     pinchDist = calculateDistance thumbTip indexTip;
                     middleFinger = landmark_at landmarks 12;
                     fingerDist = calculateDistance middleFinger thumbTip
                 in and_then (setReverb fails ''right'' (mapPinchToReverb pinchDist))
                      (and_then (setVolume fails ''right'' (mapFingerToVolume fingerDist))
                         (\<lambda>s2. case getNoteFromPosition (py wrist) (selectedScale s2) s2 of
                                  (Inl e, s3) \<Rightarrow> (Inl e, s3)
                                | (Inr note, s3) \<Rightarrow>
                                    and_then (playMelodyNote fails note)
                                      (and_then (draw_with [thumbTip])
                                         (and_then (draw_with [thumbTip, indexTip])
                                            (draw_with [thumbTip, middleFinger]))) s3))
                      s1))
         else (Inr (), s1))"

text \<open>
  One frame of the tracking oracle: the landmark arrays of the detected hands and, by
  the same index, the handedness label of each (\<open>None\<close>: no classification).
\<close>

record results =
  multiHandLandmarks :: "point option list list"
  multiHandedness :: "string option list"

definition handedness_at :: "results \<Rightarrow> nat \<Rightarrow> string option" where
  "handedness_at r i =
     (if i < length (multiHandedness r) then multiHandedness r ! i else None)"

text \<open>
  The loop over the detected hands: a record without a classification is skipped, a
  record labelled \<open>Left\<close> goes to \<open>processRightHand\<close> and every other one to
  \<open>processLeftHand\<close>. Drawing the landmarks and connectors changes nothing that is
  modelled.
\<close>

fun process_hands :: "engine \<Rightarrow> (point option list \<times> string option) list \<Rightarrow> operation" where
  "process_hands fails [] = pure_step (\<lambda>s. s)"
| "process_hands fails ((landmarks, classification) # rest) =
     (case classification of
        None \<Rightarrow> process_hands fails rest
      | Some label \<Rightarrow>
          (let isLeft = (label = ''Left'')
           in and_then (if \<not> isLeft then processLeftHand fails landmarks
                        else processRightHand fails landmarks)
                (process_hands fails rest)))"

text \<open>
  The records the loop visits, in order, and the state in which it starts: the detection
  flag is set from the number of hands and both presence flags are cleared.
\<close>

definition frame_records :: "results \<Rightarrow> (point option list \<times> string option) list" where
  "frame_records r =
     map (\<lambda>i. (multiHandLandmarks r ! i, handedness_at r i)) [0..<length (multiHandLandmarks r)]"

definition frame_start :: "results \<Rightarrow> app_state \<Rightarrow> app_state" where
  "frame_start r s0 =
     s0\<lparr>handDetected := (length (multiHandLandmarks r) > 0),
        isLeftHandPresent := False, isRightHandPresent := False\<rparr>"

definition onHandResults :: "engine \<Rightarrow> results \<Rightarrow> operation" where
  "onHandResults fails r s =
     try_catch
       (\<lambda>s0. if \<not> canvasReady s0 then (Inr (), s0)
             else
               (let wasLeftHandPresent = isLeftHandPresent s0;
                    wasRightHandPresent = isRightHandPresent s0
                in and_then
                     (if length (multiHandLandmarks r) > 0 then
                        process_hands fails (frame_records r)
                      else and_then (stopMelody fails) (stopChord fails))
                     (and_then
                        (\<lambda>s3. if \<not> isLeftHandPresent s3 \<and> wasLeftHandPresent
                              then stopChord fails s3 else (Inr (), s3))
                        (\<lambda>s3. if \<not> isRightHandPresent s3 \<and> wasRightHandPresent
                              then stopMelody fails s3 else (Inr (), s3)))
                     (frame_start r s0)))
       s"

section \<open>Observations on the engine log\<close>

fun is_attack :: "engine_call \<Rightarrow> bool" where
  "is_attack (MelodyAttack n t v) = True"
| "is_attack (HarmonyAttack ns t v) = True"
| "is_attack c = False"

definition attacks :: "engine_call list \<Rightarrow> nat" where
  "attacks cs = length (filter is_attack cs)"

text \<open>
  Concrete inputs used below: an engine on which every call throws, and the chords that
  \<open>getChordFromPosition\<close> yields in C major at octave 4 for the positions 0 and 6.
\<close>

definition broken :: engine where
  "broken = (\<lambda>c. True)"

text \<open>An engine on which every melody attack throws and every other call succeeds.\<close>

fun melody_attack_fails :: engine where
  "melody_attack_fails (MelodyAttack n t v) = True"
| "melody_attack_fails c = False"

definition C_major_chord :: chord where
  "C_major_chord = \<lparr>chord_root = Some ''C'', chord_type = ''major'',
     chord_notes = [Str ''C3'', Str ''E3'', Str ''G3''], chord_name = ''Cmajor''\<rparr>"

definition B_dim_chord :: chord where
  "B_dim_chord = \<lparr>chord_root = Some ''B'', chord_type = ''diminished'',
     chord_notes = [Str ''B3'', Str ''D4'', Str ''F4''], chord_name = ''Bdim''\<rparr>"

text \<open>
  A hand of 21 landmarks with the wrist at height \<open>y\<close>, thumb tip and index tip 0.2
  apart (wet level 1) and thumb tip and middle-finger tip 0.15 apart (gain 1), and the
  frame that holds this one hand under a given label.
\<close>

definition sample_thumb :: point where
  "sample_thumb = \<lparr>px = 2 / 5, py = 3 / 10, pz = Some 0\<rparr>"

definition sample_index :: point where
  "sample_index = \<lparr>px = 2 / 5, py = 1 / 2, pz = Some 0\<rparr>"

definition sample_middle :: point where
  "sample_middle = \<lparr>px = 49 / 100, py = 21 / 50, pz = Some 0\<rparr>"

definition sample_hand :: "real \<Rightarrow> point option list" where
  "sample_hand y = (replicate 21 (Some \<lparr>px = 1 / 2, py = y, pz = Some 0\<rparr>))
     [4 := Some sample_thumb, 8 := Some sample_index, 12 := Some sample_middle]"

definition sample_frame :: "string \<Rightarrow> real \<Rightarrow> results" where
  "sample_frame label y =
     \<lparr>multiHandLandmarks = [sample_hand y], multiHandedness = [Some label]\<rparr>"

text \<open>A frame with two hands: one labelled \<open>Right\<close> at the bottom, one labelled \<open>Left\<close> at mid height.\<close>

definition sample_pair :: results where
  "sample_pair = \<lparr>multiHandLandmarks = [sample_hand 1, sample_hand (1 / 2)],
     multiHandedness = [Some ''Right'', Some ''Left'']\<rparr>"

text \<open>
  The calls of one \<open>try\<close> block that reach the engine: those before the first one that
  throws. And the part of the state that no hand handler writes.
\<close>

definition accepted :: "engine \<Rightarrow> engine_call list \<Rightarrow> engine_call list" where
  "accepted fails calls = takeWhile (\<lambda>c. \<not> fails c) calls"

definition settings :: "app_state \<Rightarrow> bool \<times> bool \<times> bool \<times> bool \<times> string \<times> string \<times> int" where
  "settings s = (audioStarted s, reverb s, melodySynth s, harmonySynth s,
     selectedScale s, selectedRoot s, octave s)"

section \<open>Basic facts about the effect combinators\<close>

lemma try_catch_eq: "try_catch m s = (Inr (), snd (m s))"
  by (simp add: try_catch_def split: prod.splits sum.splits)

lemma and_then_pure: "and_then (pure_step f) k s = k (f s)"
  by (simp add: and_then_def pure_step_def)

lemma and_then_engine_ok:
  "\<not> fails c \<Longrightarrow> and_then (engine_do fails c) k s = k (s\<lparr>engine_log := engine_log s @ [c]\<rparr>)"
  by (simp add: and_then_def engine_do_def)

lemma and_then_engine_fail:
  "fails c \<Longrightarrow> and_then (engine_do fails c) k s = (Inl EngineError, s)"
  by (simp add: and_then_def engine_do_def)

lemma reliable_ok: "\<not> reliable c"
  by (simp add: reliable_def)

lemma pulseBlackHole_fields:
  "audioStarted (pulseBlackHole i s) = audioStarted s"
  "melodySynth (pulseBlackHole i s) = melodySynth s"
  "harmonySynth (pulseBlackHole i s) = harmonySynth s"
  "rightHandIsPlaying (pulseBlackHole i s) = rightHandIsPlaying s"
  "leftHandIsPlaying (pulseBlackHole i s) = leftHandIsPlaying s"
  "lastMelodyNote (pulseBlackHole i s) = lastMelodyNote s"
  "lastChord (pulseBlackHole i s) = lastChord s"
  "engine_log (pulseBlackHole i s) = engine_log s"
  "timers (pulseBlackHole i s) = timers s"
  by (simp_all add: pulseBlackHole_def split: option.splits)

lemma ready_fields:
  "audioStarted ready_state" "reverb ready_state" "melodySynth ready_state" "harmonySynth ready_state"
  "canvasReady ready_state"
  "\<not> leftHandIsPlaying ready_state" "\<not> rightHandIsPlaying ready_state"
  "engine_log ready_state = []" "timers ready_state = []" "clock ready_state = 0"
  "leftHandVolume ready_state = 1 / 2" "rightHandVolume ready_state = 1 / 2"
  "selectedScale ready_state = ''major''" "selectedRoot ready_state = ''C''" "octave ready_state = 4"
  "blackHole ready_state = Some \<lparr>pulseIntensity = 0, reactiveScale = 1\<rparr>"
  "lastChord ready_state = None" "lastMelodyNote ready_state = None"
  "\<not> isLeftHandPresent ready_state" "\<not> isRightHandPresent ready_state"
  by (simp_all add: ready_state_def initial_state_def)

section \<open>Melody mapping\<close>

lemma mapRange_unit_bounds:
  assumes "hi \<ge> 0"
  shows "0 \<le> mapRange y 0 1 hi 0 \<and> mapRange y 0 1 hi 0 \<le> hi"
proof -
  let ?v = "max 0 (min 1 y)"
  have v: "0 \<le> ?v" "?v \<le> 1" by simp_all
  have eq: "mapRange y 0 1 hi 0 = hi - ?v * hi"
    by (simp add: mapRange_def Let_def algebra_simps)
  have "?v * hi \<le> 1 * hi" using v assms by (intro mult_right_mono) simp_all
  moreover have "0 \<le> ?v * hi" using v assms by simp
  ultimately show ?thesis unfolding eq by simp
qed

lemma chordPosition_range: "0 \<le> chordPosition y \<and> chordPosition y \<le> 7"
proof -
  have "0 \<le> mapRange y 0 1 7 0 \<and> mapRange y 0 1 7 0 \<le> 7"
    using mapRange_unit_bounds [of 7 y] by simp
  then show ?thesis unfolding chordPosition_def by (simp add: floor_le_iff le_floor_iff)
qed

lemma melodyPosition_range: "0 \<le> melodyPosition y \<and> melodyPosition y \<le> 14"
proof -
  have "0 \<le> mapRange y 0 1 14 0 \<and> mapRange y 0 1 14 0 \<le> 14"
    using mapRange_unit_bounds [of 14 y] by simp
  then show ?thesis unfolding melodyPosition_def by (simp add: floor_le_iff le_floor_iff)
qed

lemma melodyPosition_bottom: "melodyPosition 0 = 14"
  by (simp add: melodyPosition_def mapRange_def)

lemma melodyPosition_top: "melodyPosition 1 = 0"
  by (simp add: melodyPosition_def mapRange_def)

lemma melodyPosition_middle: "melodyPosition (1 / 2) = 7"
  by (simp add: melodyPosition_def mapRange_def)

lemma C_major_position_0:
  "selectedRoot s = ''C'' \<Longrightarrow> octave s = 4 \<Longrightarrow> noteAtPosition 0 ''major'' s = Inr (Str ''C4'')"
  by (simp add: noteAtPosition_def scales_def noteNames_def js_rem_def note_text_def
      notes_at_def show_int_def)

lemma C_major_position_7:
  "selectedRoot s = ''C'' \<Longrightarrow> octave s = 4 \<Longrightarrow> noteAtPosition 7 ''major'' s = Inr (Str ''C5'')"
  by (simp add: noteAtPosition_def scales_def noteNames_def js_rem_def note_text_def
      notes_at_def show_int_def)

lemma getNoteFromPosition_fst:
  "fst (getNoteFromPosition y scale s)
     = noteAtPosition (melodyPosition y) scale (s\<lparr>lastRightHandY := y\<rparr>)"
  by (simp add: getNoteFromPosition_def Let_def)

text \<open>
  Claim C1. In C major at octave 4 the vertical position 0.0 maps to scale-step
  index 14 and 1.0 to index 0; the note at index 0 is C4 and the note at index 7 is C5.
  The last two conjuncts read the same notes off \<open>getNoteFromPosition\<close> at the vertical
  positions 1.0 and 0.5, which map to the indices 0 and 7.
\<close>

theorem C1_melody_boundaries:
  "melodyPosition 0 = 14 \<and> melodyPosition 1 = 0
   \<and> noteAtPosition 0 ''major'' (s\<lparr>selectedRoot := ''C'', octave := 4\<rparr>) = Inr (Str ''C4'')
   \<and> noteAtPosition 7 ''major'' (s\<lparr>selectedRoot := ''C'', octave := 4\<rparr>) = Inr (Str ''C5'')
   \<and> fst (getNoteFromPosition 1 ''major'' (s\<lparr>selectedRoot := ''C'', octave := 4\<rparr>))
       = Inr (Str ''C4'')
   \<and> fst (getNoteFromPosition (1 / 2) ''major'' (s\<lparr>selectedRoot := ''C'', octave := 4\<rparr>))
       = Inr (Str ''C5'')"
  by (simp add: melodyPosition_bottom melodyPosition_top melodyPosition_middle
      C_major_position_0 C_major_position_7 getNoteFromPosition_fst)

section \<open>Melody voice\<close>

lemma strict_neq_same: "\<not> strict_neq (Some (Str n)) x \<Longrightarrow> x = Some (Str n)"
  by (cases "(Some (Str n), x)" rule: strict_neq.cases) auto

lemma playMelodyNote_same:
  assumes "rightHandIsPlaying s" "lastMelodyNote s = Some (Str n)"
  shows "playMelodyNote fails (Str n) s = (Inr (), s)"
proof -
  have "s\<lparr>lastMelodyNote := Some (Str n)\<rparr> = s" using assms(2) by (cases s) simp
  then show ?thesis using assms
    by (simp add: playMelodyNote_def try_catch_eq pure_step_def)
qed

lemma playMelodyNote_onset:
  assumes "audioStarted s" "melodySynth s" "\<not> rightHandIsPlaying s"
    "\<not> fails (MelodyAttack note 0 (8 / 10))"
  shows "playMelodyNote fails note s = (Inr (), pulseBlackHole 1
     (s\<lparr>lastMelodyNote := Some note,
        engine_log := engine_log s @ [MelodyAttack note 0 (8 / 10)],
        rightHandIsPlaying := True, currentMelodyNote := Some note\<rparr>))"
  using assms by (simp add: playMelodyNote_def try_catch_eq and_then_engine_ok pure_step_def)

lemma playMelodyNote_change:
  assumes "audioStarted s" "melodySynth s" "rightHandIsPlaying s"
    "strict_neq (Some note) (lastMelodyNote s)"
    "\<not> fails (MelodyRelease (Some (2 / 100)))" "\<not> fails (MelodyAttack note (7 / 100) (7 / 10))"
  shows "playMelodyNote fails note s = (Inr (), pulseBlackHole (8 / 10)
     (s\<lparr>lastMelodyNote := Some note,
        engine_log := engine_log s
          @ [MelodyRelease (Some (2 / 100)), MelodyAttack note (7 / 100) (7 / 10)],
        currentMelodyNote := Some note\<rparr>))"
  using assms by (simp add: playMelodyNote_def try_catch_eq and_then_engine_ok pure_step_def)

text \<open>
  Claim C3. Calling \<open>playMelodyNote\<close> twice in succession with the same note: the second
  call changes nothing at all (no engine call, whatever the engine would do), and when
  the first call is an onset or a note change (audio started, synth present, voice idle
  or note different from the last one) the two calls together issue exactly one attack.
  The first call runs on an engine that accepts its calls.
\<close>

theorem C3_melody_update_idempotent:
  "playMelodyNote fails (Str n) (snd (playMelodyNote reliable (Str n) s))
     = (Inr (), snd (playMelodyNote reliable (Str n) s))
   \<and> (audioStarted s \<and> melodySynth s
        \<and> (\<not> rightHandIsPlaying s \<or> strict_neq (Some (Str n)) (lastMelodyNote s))
      \<longrightarrow> attacks (engine_log (snd (playMelodyNote fails (Str n)
                (snd (playMelodyNote reliable (Str n) s))))) = attacks (engine_log s) + 1)"
proof -
  let ?s1 = "snd (playMelodyNote reliable (Str n) s)"
  have second: "playMelodyNote fails (Str n) ?s1 = (Inr (), ?s1)"
  proof (cases "audioStarted s \<and> melodySynth s")
    case False
    then have "playMelodyNote reliable (Str n) s = (Inr (), s)"
      by (auto simp add: playMelodyNote_def)
    moreover from False have "playMelodyNote fails (Str n) s = (Inr (), s)"
      by (auto simp add: playMelodyNote_def)
    ultimately show ?thesis by simp
  next
    case ready: True
    show ?thesis
    proof (cases "rightHandIsPlaying s")
      case False
      with ready have "rightHandIsPlaying ?s1 \<and> lastMelodyNote ?s1 = Some (Str n)"
        by (simp add: playMelodyNote_onset reliable_ok pulseBlackHole_fields)
      then show ?thesis by (simp add: playMelodyNote_same)
    next
      case playing: True
      show ?thesis
      proof (cases "strict_neq (Some (Str n)) (lastMelodyNote s)")
        case True
        with ready playing have "rightHandIsPlaying ?s1 \<and> lastMelodyNote ?s1 = Some (Str n)"
          by (simp add: playMelodyNote_change reliable_ok pulseBlackHole_fields)
        then show ?thesis by (simp add: playMelodyNote_same)
      next
        case False
        then have "lastMelodyNote s = Some (Str n)"
          by (rule strict_neq_same)
        with playing show ?thesis by (simp add: playMelodyNote_same)
      qed
    qed
  qed
  have count: "attacks (engine_log ?s1) = attacks (engine_log s) + 1"
    if "audioStarted s" "melodySynth s"
       "\<not> rightHandIsPlaying s \<or> strict_neq (Some (Str n)) (lastMelodyNote s)"
  proof (cases "rightHandIsPlaying s")
    case False
    with that show ?thesis
      by (simp add: playMelodyNote_onset reliable_ok pulseBlackHole_fields attacks_def)
  next
    case True
    with that show ?thesis
      by (simp add: playMelodyNote_change reliable_ok pulseBlackHole_fields attacks_def)
  qed
  show ?thesis using second count by simp
qed

theorem C3_melody_update_idempotent_witness:
  "audioStarted ready_state \<and> melodySynth ready_state \<and> \<not> rightHandIsPlaying ready_state
   \<and> attacks (engine_log (snd (playMelodyNote reliable (Str ''C4'')
         (snd (playMelodyNote reliable (Str ''C4'') ready_state))))) = 1"
proof -
  have ready: "audioStarted ready_state \<and> melodySynth ready_state
      \<and> \<not> rightHandIsPlaying ready_state"
    by (simp add: ready_state_def initial_state_def)
  have empty: "attacks (engine_log ready_state) = 0"
    by (simp add: ready_state_def initial_state_def attacks_def)
  from C3_melody_update_idempotent [of reliable "''C4''" ready_state] ready
  have "attacks (engine_log (snd (playMelodyNote reliable (Str ''C4'')
         (snd (playMelodyNote reliable (Str ''C4'') ready_state)))))
        = attacks (engine_log ready_state) + 1"
    by blast
  with ready empty show ?thesis by simp
qed

section \<open>Pulse decay\<close>

lemma round_half_even_ge_one: "1 / 2 < y \<Longrightarrow> 1 \<le> round_half_even y"
proof -
  assume y: "1 / 2 < y"
  then have f0: "0 \<le> \<lfloor>y\<rfloor>" by simp
  show ?thesis
  proof (cases "1 \<le> \<lfloor>y\<rfloor>")
    case True
    then show ?thesis by (simp add: round_half_even_def Let_def)
  next
    case False
    with f0 have "\<lfloor>y\<rfloor> = 0" by linarith
    with y show ?thesis by (simp add: round_half_even_def Let_def)
  qed
qed

lemma binade_down_lower: "e - int n \<le> binade_down n e z"
  by (induction n e z rule: binade_down.induct) auto

lemma binade_up_lower: "e \<le> binade_up n e z"
  by (induction n e z rule: binade_up.induct) auto

lemma binade_lower: "- 1022 \<le> binade a"
  using binade_down_lower [of "- 1" 1021 a] binade_up_lower [of 0 1023 a]
  by (simp add: binade_def)

lemma binade_down_hit: "2 powi (binade_down n e z) \<le> z \<or> binade_down n e z = e - int n"
  by (induction n e z rule: binade_down.induct) auto

lemma binade_up_hit: "2 powi e \<le> z \<Longrightarrow> 2 powi (binade_up n e z) \<le> z"
  by (induction n e z rule: binade_up.induct) auto

lemma binade_hit: "2 powi (binade a) \<le> a \<or> binade a = - 1022"
proof (cases "1 \<le> a")
  case True
  then have "2 powi (binade_up 1023 0 a) \<le> a" by (intro binade_up_hit) simp
  with True show ?thesis by (simp add: binade_def)
next
  case False
  with binade_down_hit [of 1021 "- 1" a] show ?thesis by (simp add: binade_def)
qed

lemma MIN_VALUE_pos: "0 < MIN_VALUE"
  by (simp add: MIN_VALUE_def)

lemma half_MIN_VALUE: "(2::real) powi (- 1075) = MIN_VALUE * (1 / 2)"
  by (simp add: MIN_VALUE_def power_int_minus field_simps)

lemma round_double_lower:
  assumes "MIN_VALUE * (1 / 2) < z"
  shows "MIN_VALUE \<le> round_double z"
proof -
  have zpos: "0 < z" using assms MIN_VALUE_pos by (smt (verit) mult_pos_pos half_gt_zero_iff zero_less_one)
  define e where "e = binade z"
  define u :: real where "u = 2 powi (e - 52)"
  have upos: "0 < u" unfolding u_def by simp
  have ulow: "MIN_VALUE \<le> u"
    unfolding u_def MIN_VALUE_def using binade_lower [of z]
    by (intro power_int_increasing) (simp_all add: e_def)
  have half: "1 / 2 < z / u"
  proof -
    from binade_hit [of z] consider "2 powi e \<le> z" | "e = - 1022" unfolding e_def by blast
    then show ?thesis
    proof cases
      case 1
      have "2 powi e / u = 2 powi 52" unfolding u_def by (simp add: power_int_diff)
      then have "2 powi 52 \<le> z / u" using 1 upos by (metis divide_right_mono less_imp_le)
      moreover have "(1::real) \<le> 2 powi 52" by simp
      ultimately show ?thesis by linarith
    next
      case 2
      then have u: "u = MIN_VALUE" unfolding u_def MIN_VALUE_def by simp
      with assms have "u * (1 / 2) < z" by simp
      then show ?thesis using upos by (simp add: field_simps)
    qed
  qed
  then have "1 \<le> round_half_even (z / u)" by (rule round_half_even_ge_one)
  then have "(1::real) \<le> of_int (round_half_even (z / u))" by simp
  then have "u \<le> of_int (round_half_even (z / u)) * u" using upos by simp
  with ulow have "MIN_VALUE \<le> of_int (round_half_even (z / u)) * u" by linarith
  then show ?thesis using zpos by (simp add: round_double_def Let_def e_def u_def)
qed

lemma binade_down_step:
  "0 < n \<Longrightarrow> binade_down n e z = (if 2 powi e \<le> z then e else binade_down (n - 1) (e - 1) z)"
  by (cases n) simp_all

lemma binade_half_to_one: "1 / 2 \<le> a \<Longrightarrow> a < 1 \<Longrightarrow> binade a = - 1"
  by (simp add: binade_def binade_down_step power_int_minus)

lemma round_double_half_to_one:
  assumes "1 / 2 \<le> z" "z < 1"
  shows "round_double z = of_int (round_half_even (z * 2 ^ 53)) / 2 ^ 53"
proof -
  have "binade \<bar>z\<bar> = - 1" using assms by (intro binade_half_to_one) simp_all
  moreover have "(2::real) powi (- 53) = 1 / 2 ^ 53" by (simp add: power_int_minus field_simps)
  ultimately show ?thesis using assms by (simp add: round_double_def Let_def)
qed

lemma D95: "round_double (95 / 100) = 4278419646001971 / 2 ^ 52"
  by (simp add: round_double_half_to_one round_half_even_def Let_def)

lemma step1: "round_double (1 * (4278419646001971 / 2 ^ 52)) = 4278419646001971 / 2 ^ 52"
  by (simp add: round_double_half_to_one round_half_even_def Let_def)

lemma step2: "round_double (4278419646001971 / 2 ^ 52 * (4278419646001971 / 2 ^ 52)) = 8128997327403745 / 2 ^ 53"
  by (simp add: round_double_half_to_one round_half_even_def Let_def)

lemma step3: "round_double (8128997327403745 / 2 ^ 53 * (4278419646001971 / 2 ^ 52)) = 7722547461033557 / 2 ^ 53"
  by (simp add: round_double_half_to_one round_half_even_def Let_def)

lemma cube: "round_double ((95 / 100) ^ 3) = 7722547461033558 / 2 ^ 53"
  by (simp add: round_double_half_to_one round_half_even_def Let_def power3_eq_cube)

lemma tick_pulse:
  "pulseIntensity (tick playing v) = round_double (pulseIntensity v * round_double (95 / 100))"
  by (simp add: tick_def Let_def)

lemma ticks_snoc: "ticks (flags @ [playing]) v = tick playing (ticks flags v)"
  by (induction flags arbitrary: v) simp_all

lemma tick_pulse_lower:
  assumes "MIN_VALUE \<le> pulseIntensity v"
  shows "MIN_VALUE \<le> pulseIntensity (tick playing v)"
proof -
  define c where "c = round_double (95 / 100)"
  have c: "1 / 2 < c" unfolding c_def D95 by simp
  have "MIN_VALUE * (1 / 2) < MIN_VALUE * c"
    using c MIN_VALUE_pos by (intro mult_strict_left_mono)
  also have "\<dots> \<le> pulseIntensity v * c"
    using assms c by (intro mult_right_mono) simp_all
  finally have "MIN_VALUE * (1 / 2) < pulseIntensity v * round_double (95 / 100)"
    unfolding c_def .
  then show ?thesis unfolding tick_pulse by (rule round_double_lower)
qed

lemma ticks_pulse_lower:
  "MIN_VALUE \<le> pulseIntensity v \<Longrightarrow> MIN_VALUE \<le> pulseIntensity (ticks flags v)"
proof (induction flags arbitrary: v)
  case Nil
  then show ?case by simp
next
  case (Cons playing flags)
  from Cons.prems have "MIN_VALUE \<le> pulseIntensity (tick playing v)"
    by (rule tick_pulse_lower)
  then have "MIN_VALUE \<le> pulseIntensity (ticks flags (tick playing v))"
    by (rule Cons.IH)
  then show ?case by simp
qed

lemma one_above_MIN_VALUE: "MIN_VALUE \<le> 1"
  by (simp add: MIN_VALUE_def power_int_minus field_simps)

text \<open>
  Claim C9, as amended. Each tick replaces the pulse intensity by the double nearest to
  its product with the double 0.95, so after a pulse of 1.0 and \<open>N\<close> render frames
  without a further pulse the intensity is the \<open>N\<close>-fold rounded product. It is strictly
  positive for every \<open>N\<close>: it never falls below \<open>Number.MIN_VALUE\<close>. (\<open>N\<close> is the length
  of the list of per-frame play flags.)
\<close>

theorem C9_pulse_decay_rounded:
  "pulseIntensity (ticks (flags @ [playing]) w)
     = round_double (pulseIntensity (ticks flags w) * round_double (95 / 100))
   \<and> MIN_VALUE \<le> pulseIntensity (ticks flags (pulse 1 v))
   \<and> 0 < pulseIntensity (ticks flags (pulse 1 v))"
proof -
  have "pulseIntensity (pulse 1 v) = 1" by (simp add: pulse_def)
  then have "MIN_VALUE \<le> pulseIntensity (pulse 1 v)" using one_above_MIN_VALUE by simp
  then have low: "MIN_VALUE \<le> pulseIntensity (ticks flags (pulse 1 v))"
    by (rule ticks_pulse_lower)
  with MIN_VALUE_pos have "0 < pulseIntensity (ticks flags (pulse 1 v))" by linarith
  moreover have "pulseIntensity (ticks (flags @ [playing]) w)
     = round_double (pulseIntensity (ticks flags w) * round_double (95 / 100))"
    unfolding ticks_snoc tick_pulse ..
  ultimately show ?thesis using low by blast
qed

text \<open>
  Claim C9 as stated fails: after three ticks the intensity is 0.8573749999999999,
  which is neither \<open>0.95 ^ 3\<close> nor the double nearest to it.
\<close>

theorem C9_not_a_power_counterexample:
  "pulseIntensity (ticks [False, False, False] (pulse 1 \<lparr>pulseIntensity = 0, reactiveScale = 1\<rparr>))
     = 7722547461033557 / 2 ^ 53
   \<and> (7722547461033557 / 2 ^ 53 :: real) \<noteq> (95 / 100) ^ 3
   \<and> round_double ((95 / 100) ^ 3) = 7722547461033558 / 2 ^ 53"
proof -
  have "pulseIntensity (ticks [False, False, False] (pulse 1 \<lparr>pulseIntensity = 0, reactiveScale = 1\<rparr>))
     = round_double (round_double (round_double (1 * round_double (95 / 100)) * round_double (95 / 100)) * round_double (95 / 100))"
    by (simp add: tick_pulse pulse_def)
  also have "\<dots> = 7722547461033557 / 2 ^ 53"
    unfolding D95 step1 step2 step3 ..
  finally have a: "pulseIntensity (ticks [False, False, False] (pulse 1 \<lparr>pulseIntensity = 0, reactiveScale = 1\<rparr>))
     = 7722547461033557 / 2 ^ 53" .
  have b: "(7722547461033557 / 2 ^ 53 :: real) \<noteq> (95 / 100) ^ 3" by (simp add: power3_eq_cube)
  from a b cube show ?thesis by blast
qed

section \<open>Missing landmark points\<close>

text \<open>
  Claim C10. \<open>calculateDistance\<close> returns \<open>Infinity\<close> (it does not throw) as soon as one
  of its two points is missing, and \<open>mapPinchToReverb\<close> and \<open>mapFingerToVolume\<close> turn such
  a distance into the wet level 1 and the gain 1.
\<close>

theorem C10_distance_total_on_missing_points:
  "calculateDistance None p2 = Infinity \<and> calculateDistance p1 None = Infinity
   \<and> mapPinchToReverb (calculateDistance None p2) = 1
   \<and> mapPinchToReverb (calculateDistance p1 None) = 1
   \<and> mapFingerToVolume (calculateDistance None p2) = 1
   \<and> mapFingerToVolume (calculateDistance p1 None) = 1"
  by (simp add: calculateDistance_def mapPinchToReverb_def mapFingerToVolume_def
      split: option.splits)

section \<open>Harmony voice\<close>

lemma playChord_same:
  assumes "chord_notes c = chord_notes l" "leftHandIsPlaying s" "lastChord s = Some l"
  shows "playChord fails c s = (Inr (), s)"
  using assms by (simp add: playChord_def chordChanged_def try_catch_eq pure_step_def)

lemma playChord_onset:
  assumes "audioStarted s" "harmonySynth s" "\<not> leftHandIsPlaying s"
    "\<not> fails (HarmonyAttack (chord_notes c) 0 (6 / 10))"
  shows "playChord fails c s = (Inr (), pulseBlackHole 1
     (s\<lparr>engine_log := engine_log s @ [HarmonyAttack (chord_notes c) 0 (6 / 10)],
        leftHandIsPlaying := True, currentChord := Some c, lastChord := Some c\<rparr>))"
  using assms by (simp add: playChord_def try_catch_eq and_then_engine_ok pure_step_def)

lemma playChord_change:
  assumes "audioStarted s" "harmonySynth s" "leftHandIsPlaying s" "chordChanged c s"
    "\<not> fails (HarmonyReleaseAll (Some (- (5 / 1000))))"
  shows "playChord fails c s = (Inr (),
     s\<lparr>engine_log := engine_log s @ [HarmonyReleaseAll (Some (- (5 / 1000)))],
       timers := timers s @ [(clock s + 150, RebuildHarmony c)]\<rparr>)"
  using assms by (simp add: playChord_def try_catch_eq and_then_engine_ok pure_step_def setTimeout_def)

text \<open>
  When the chord recorded in \<open>lastChord\<close> has the same notes as the new one, and from
  an idle voice, a repeated chord changes nothing.
\<close>

lemma playChord_equal_notes_unchanged:
  assumes "chord_notes c2 = chord_notes c1"
  shows "(leftHandIsPlaying s \<and> lastChord s = Some c1 \<longrightarrow> playChord fails c2 s = (Inr (), s))
    \<and> (audioStarted s \<and> harmonySynth s \<and> \<not> leftHandIsPlaying s \<longrightarrow>
         engine_log (snd (playChord reliable c1 s)) = engine_log s @ [HarmonyAttack (chord_notes c1) 0 (6 / 10)]
         \<and> playChord fails c2 (snd (playChord reliable c1 s)) = (Inr (), snd (playChord reliable c1 s)))"
proof (intro conjI impI)
  assume "leftHandIsPlaying s \<and> lastChord s = Some c1"
  then show "playChord fails c2 s = (Inr (), s)" using assms by (simp add: playChord_same)
next
  assume idle: "audioStarted s \<and> harmonySynth s \<and> \<not> leftHandIsPlaying s"
  then show "engine_log (snd (playChord reliable c1 s)) = engine_log s @ [HarmonyAttack (chord_notes c1) 0 (6 / 10)]"
    by (simp add: playChord_onset reliable_ok pulseBlackHole_fields)
  let ?s1 = "snd (playChord reliable c1 s)"
  from idle have "leftHandIsPlaying ?s1 \<and> lastChord ?s1 = Some c1"
    by (simp add: playChord_onset reliable_ok pulseBlackHole_fields)
  then show "playChord fails c2 ?s1 = (Inr (), ?s1)" using assms by (simp add: playChord_same)
qed

section \<open>Gain and reverb writes\<close>

lemma setReverb_writes:
  assumes "audioStarted s" "reverb s" "\<not> fails (ReverbSetWet (max 0 (min w 1)))"
  shows "setReverb fails hand w s = (Inr (), s\<lparr>engine_log := engine_log s @ [ReverbSetWet (max 0 (min w 1))]\<rparr>)"
  using assms by (simp add: setReverb_def try_catch_eq engine_do_def)

lemma setVolume_left:
  "setVolume reliable ''left'' v s =
     (Inr (), if audioStarted s \<and> rightHandVolume s \<noteq> max 0 (min v 1)
              then (if harmonySynth s
                    then s\<lparr>rightHandVolume := max 0 (min v 1),
                            engine_log := engine_log s @ [HarmonySetVolume (max 0 (min v 1) * (6 / 10))]\<rparr>
                    else s\<lparr>rightHandVolume := max 0 (min v 1)\<rparr>)
              else s)"
  by (simp add: setVolume_def Let_def try_catch_eq and_then_pure engine_do_def reliable_ok pure_step_def)

lemma setVolume_right:
  "setVolume reliable ''right'' v s =
     (Inr (), if audioStarted s \<and> leftHandVolume s \<noteq> max 0 (min v 1)
              then (if melodySynth s
                    then s\<lparr>leftHandVolume := max 0 (min v 1),
                            engine_log := engine_log s @ [MelodySetVolume (max 0 (min v 1))]\<rparr>
                    else s\<lparr>leftHandVolume := max 0 (min v 1)\<rparr>)
              else s)"
  by (simp add: setVolume_def Let_def try_catch_eq and_then_pure engine_do_def reliable_ok pure_step_def)

lemma setVolume_other:
  "hand \<noteq> ''left'' \<Longrightarrow> hand \<noteq> ''right'' \<Longrightarrow> setVolume fails hand v s = (Inr (), s)"
  by (simp add: setVolume_def Let_def try_catch_eq pure_step_def)

lemma setVolume_unchanged_left:
  "rightHandVolume s = max 0 (min v 1) \<Longrightarrow> setVolume fails ''left'' v s = (Inr (), s)"
  by (simp add: setVolume_def Let_def try_catch_eq pure_step_def)

lemma setVolume_unchanged_right:
  "leftHandVolume s = max 0 (min v 1) \<Longrightarrow> setVolume fails ''right'' v s = (Inr (), s)"
  by (simp add: setVolume_def Let_def try_catch_eq pure_step_def)

text \<open>
  Claim C6, as amended. \<open>setVolume\<close> writes the gain to the engine only when the clamped
  value differs from the value it stored for that hand at its previous write, and a
  second call with the same value changes nothing. \<open>setReverb\<close> has no such check:
  while audio is started and the reverb exists it writes the clamped wet level on
  every call.
\<close>

theorem C6_gain_on_change_reverb_always:
  "(engine_log (snd (setVolume reliable ''left'' v s)) \<noteq> engine_log s
       \<longrightarrow> rightHandVolume s \<noteq> max 0 (min v 1))
   \<and> (engine_log (snd (setVolume reliable ''right'' v s)) \<noteq> engine_log s
       \<longrightarrow> leftHandVolume s \<noteq> max 0 (min v 1))
   \<and> setVolume fails ''left'' v (snd (setVolume reliable ''left'' v s))
       = (Inr (), snd (setVolume reliable ''left'' v s))
   \<and> setVolume fails ''right'' v (snd (setVolume reliable ''right'' v s))
       = (Inr (), snd (setVolume reliable ''right'' v s))
   \<and> (audioStarted s \<and> reverb s \<longrightarrow>
        engine_log (snd (setReverb reliable hand w s))
          = engine_log s @ [ReverbSetWet (max 0 (min w 1))])"
proof (intro conjI impI)
  show "rightHandVolume s \<noteq> max 0 (min v 1)"
    if "engine_log (snd (setVolume reliable ''left'' v s)) \<noteq> engine_log s"
    using that by (auto simp add: setVolume_left split: if_splits)
  show "leftHandVolume s \<noteq> max 0 (min v 1)"
    if "engine_log (snd (setVolume reliable ''right'' v s)) \<noteq> engine_log s"
    using that by (auto simp add: setVolume_right split: if_splits)
  show "setVolume fails ''left'' v (snd (setVolume reliable ''left'' v s))
       = (Inr (), snd (setVolume reliable ''left'' v s))"
  proof (cases "audioStarted s")
    case False
    then show ?thesis by (simp add: setVolume_def)
  next
    case True
    then have "rightHandVolume (snd (setVolume reliable ''left'' v s)) = max 0 (min v 1)"
      by (simp add: setVolume_left)
    then show ?thesis by (rule setVolume_unchanged_left)
  qed
  show "setVolume fails ''right'' v (snd (setVolume reliable ''right'' v s))
       = (Inr (), snd (setVolume reliable ''right'' v s))"
  proof (cases "audioStarted s")
    case False
    then show ?thesis by (simp add: setVolume_def)
  next
    case True
    then have "leftHandVolume (snd (setVolume reliable ''right'' v s)) = max 0 (min v 1)"
      by (simp add: setVolume_right)
    then show ?thesis by (rule setVolume_unchanged_right)
  qed
  show "engine_log (snd (setReverb reliable hand w s))
          = engine_log s @ [ReverbSetWet (max 0 (min w 1))]"
    if "audioStarted s \<and> reverb s"
    using that by (simp add: setReverb_writes reliable_ok)
qed

text \<open>
  Claim C6 as stated fails for the reverb: two successive \<open>setReverb\<close> calls with the
  same wet level write it to the engine twice.
\<close>

theorem C6_reverb_rewritten_counterexample:
  "engine_log (snd (setReverb reliable ''left'' (1 / 2)
      (snd (setReverb reliable ''left'' (1 / 2) ready_state))))
   = [ReverbSetWet (1 / 2), ReverbSetWet (1 / 2)]"
  by (simp add: setReverb_writes reliable_ok ready_fields)

theorem C6_gain_on_change_reverb_always_witness:
  "engine_log (snd (setVolume reliable ''left'' (3 / 10) ready_state)) \<noteq> engine_log ready_state
   \<and> rightHandVolume ready_state \<noteq> max 0 (min (3 / 10) 1)
   \<and> engine_log (snd (setVolume reliable ''right'' (3 / 10) ready_state)) \<noteq> engine_log ready_state
   \<and> leftHandVolume ready_state \<noteq> max 0 (min (3 / 10) 1)
   \<and> audioStarted ready_state \<and> reverb ready_state
   \<and> engine_log (snd (setReverb reliable ''left'' (1 / 2) ready_state)) = [ReverbSetWet (1 / 2)]"
proof -
  have l: "engine_log (snd (setVolume reliable ''left'' (3 / 10) ready_state)) \<noteq> engine_log ready_state"
    by (simp add: setVolume_left ready_fields)
  have r: "engine_log (snd (setVolume reliable ''right'' (3 / 10) ready_state)) \<noteq> engine_log ready_state"
    by (simp add: setVolume_right ready_fields)
  have a: "audioStarted ready_state \<and> reverb ready_state" by (simp add: ready_fields)
  note inst = C6_gain_on_change_reverb_always [where v = "3 / 10" and s = ready_state and fails = reliable
      and hand = "''left''" and w = "1 / 2"]
  from inst l have 1: "rightHandVolume ready_state \<noteq> max 0 (min (3 / 10) 1)" by blast
  from inst r have 2: "leftHandVolume ready_state \<noteq> max 0 (min (3 / 10) 1)" by blast
  from inst a have 3: "engine_log (snd (setReverb reliable ''left'' (1 / 2) ready_state))
     = engine_log ready_state @ [ReverbSetWet (max 0 (min (1 / 2) 1))]" by blast
  from 3 have 4: "engine_log (snd (setReverb reliable ''left'' (1 / 2) ready_state)) = [ReverbSetWet (1 / 2)]"
    by (simp add: ready_fields)
  from l r a 1 2 4 show ?thesis by blast
qed

section \<open>Pulse of a chord change\<close>

lemma fire_next_single:
  "timers s = [(t, callback)] \<Longrightarrow>
     fire_next fails s = snd (run_task fails callback (s\<lparr>clock := max (clock s) t, timers := []\<rparr>))"
  by (simp add: fire_next_def)

lemma run_RebuildHarmony:
  "run_task reliable (RebuildHarmony c) s =
     (Inr (), s\<lparr>engine_log := engine_log s
        @ [HarmonyDispose, HarmonyCreate, HarmonySetVolume (leftHandVolume s * (6 / 10))],
        timers := timers s @ [(clock s + 50, AttackChord c)]\<rparr>)"
  by (simp add: and_then_def engine_do_def reliable_def pure_step_def setTimeout_def)

lemma run_AttackChord:
  "run_task reliable (AttackChord c) s =
     (Inr (), pulseBlackHole (changePulse c)
        (s\<lparr>engine_log := engine_log s @ [HarmonyAttack (chord_notes c) (5 / 100) (6 / 10)],
           currentChord := Some c, lastChord := Some c, leftHandIsPlaying := True\<rparr>))"
  by (simp add: and_then_engine_ok reliable_ok pure_step_def)

lemma chord_change_pulse:
  assumes "audioStarted s" "harmonySynth s" "leftHandIsPlaying s" "chordChanged c s"
    "timers s = []" "blackHole s = Some v"
  shows "blackHole (fire_next reliable (fire_next reliable (snd (playChord reliable c s))))
     = Some (pulse (changePulse c) v)"
proof -
  let ?s2 = "snd (playChord reliable c s)"
  have s2: "?s2 = s\<lparr>engine_log := engine_log s @ [HarmonyReleaseAll (Some (- (5 / 1000)))],
       timers := timers s @ [(clock s + 150, RebuildHarmony c)]\<rparr>"
    using assms by (simp add: playChord_change reliable_ok)
  have t2: "timers ?s2 = [(clock s + 150, RebuildHarmony c)]"
    unfolding s2 using assms(5) by simp
  let ?s3 = "fire_next reliable ?s2"
  have s3: "?s3 = snd (run_task reliable (RebuildHarmony c)
      (?s2\<lparr>clock := max (clock ?s2) (clock s + 150), timers := []\<rparr>))"
    using t2 by (rule fire_next_single)
  have t3: "timers ?s3 = [(max (clock ?s2) (clock s + 150) + 50, AttackChord c)]"
    unfolding s3 by (simp add: run_RebuildHarmony del: run_task.simps)
  have b3: "blackHole ?s3 = Some v"
    unfolding s3 by (simp add: run_RebuildHarmony s2 assms(6) del: run_task.simps)
  let ?s4 = "fire_next reliable ?s3"
  have s4: "?s4 = snd (run_task reliable (AttackChord c)
      (?s3\<lparr>clock := max (clock ?s3) (max (clock ?s2) (clock s + 150) + 50), timers := []\<rparr>))"
    using t3 by (rule fire_next_single)
  show ?thesis unfolding s4
    by (simp add: run_AttackChord pulseBlackHole_def b3 del: run_task.simps)
qed

lemma chordPosition_top: "chordPosition 1 = 0"
  by (simp add: chordPosition_def mapRange_def)

lemma chordPosition_tenth: "chordPosition (1 / 10) = 6"
  by (simp add: chordPosition_def mapRange_def)

lemma C_major_chord_0:
  "selectedScale s = ''major'' \<Longrightarrow> selectedRoot s = ''C'' \<Longrightarrow> octave s = 4 \<Longrightarrow>
     chordAtPosition 0 s = Inr C_major_chord"
  by (simp add: chordAtPosition_def scales_def noteNames_def js_rem_def note_text_def
      notes_at_def show_int_def chordTypeFor_def chordTypes_def chordName_def chordNameMap_def
      C_major_chord_def Let_def)

lemma C_major_chord_6:
  "selectedScale s = ''major'' \<Longrightarrow> selectedRoot s = ''C'' \<Longrightarrow> octave s = 4 \<Longrightarrow>
     chordAtPosition 6 s = Inr B_dim_chord"
  by (simp add: chordAtPosition_def scales_def noteNames_def js_rem_def note_text_def
      notes_at_def show_int_def chordTypeFor_def chordTypes_def chordName_def chordNameMap_def
      B_dim_chord_def Let_def)

lemma getChordFromPosition_fst:
  "fst (getChordFromPosition y s) = chordAtPosition (chordPosition y) (s\<lparr>lastLeftHandY := y\<rparr>)"
  by (simp add: getChordFromPosition_def Let_def)

lemma B_dim_changed: "JSON_stringify (chord_notes B_dim_chord) \<noteq> JSON_stringify (chord_notes C_major_chord)"
  by (simp add: JSON_stringify_def B_dim_chord_def C_major_chord_def json_escape_def)

lemma changePulse_B_dim: "changePulse B_dim_chord = 12 / 10"
  by (simp add: changePulse_def B_dim_chord_def)

lemma playing_C_major:
  "snd (playChord reliable C_major_chord ready_state) = pulseBlackHole 1
     (ready_state\<lparr>engine_log := [HarmonyAttack (chord_notes C_major_chord) 0 (6 / 10)],
        leftHandIsPlaying := True, currentChord := Some C_major_chord,
        lastChord := Some C_major_chord\<rparr>)"
  by (simp add: playChord_onset reliable_ok ready_fields)

text \<open>
  Claim C2 fails on the code. The harmony voice plays C major; \<open>playChord\<close> is called
  with B diminished (a change: release, rebuild timer) and, before that timer has run,
  with B diminished again. \<open>lastChord\<close> still holds C major then, so the second call
  releases again and queues a second rebuild although its notes equal those of the
  call before it.
\<close>

theorem C2_equal_chord_retriggers_while_change_pending:
  "engine_log (snd (playChord reliable B_dim_chord
      (snd (playChord reliable B_dim_chord
        (snd (playChord reliable C_major_chord ready_state))))))
     = [HarmonyAttack [Str ''C3'', Str ''E3'', Str ''G3''] 0 (6 / 10),
        HarmonyReleaseAll (Some (- (5 / 1000))),
        HarmonyReleaseAll (Some (- (5 / 1000)))]
   \<and> timers (snd (playChord reliable B_dim_chord
      (snd (playChord reliable B_dim_chord
        (snd (playChord reliable C_major_chord ready_state))))))
     = [(150, RebuildHarmony B_dim_chord), (150, RebuildHarmony B_dim_chord)]"
proof -
  define s1 where "s1 = snd (playChord reliable C_major_chord ready_state)"
  have s1: "audioStarted s1" "harmonySynth s1" "leftHandIsPlaying s1" "timers s1 = []"
    "lastChord s1 = Some C_major_chord" "clock s1 = 0"
    "engine_log s1 = [HarmonyAttack (chord_notes C_major_chord) 0 (6 / 10)]"
    unfolding s1_def playing_C_major by (simp_all add: pulseBlackHole_fields ready_fields pulseBlackHole_def split: option.splits)
  have ch1: "chordChanged B_dim_chord s1"
    by (simp add: chordChanged_def s1 B_dim_changed)
  define s2 where "s2 = snd (playChord reliable B_dim_chord s1)"
  have s2e: "s2 = s1\<lparr>engine_log := engine_log s1 @ [HarmonyReleaseAll (Some (- (5 / 1000)))],
       timers := timers s1 @ [(clock s1 + 150, RebuildHarmony B_dim_chord)]\<rparr>"
    unfolding s2_def using s1(1-3) ch1 by (simp add: playChord_change reliable_ok)
  have s2: "audioStarted s2" "harmonySynth s2" "leftHandIsPlaying s2"
    "timers s2 = [(150, RebuildHarmony B_dim_chord)]"
    "lastChord s2 = Some C_major_chord" "clock s2 = 0"
    "engine_log s2 = [HarmonyAttack (chord_notes C_major_chord) 0 (6 / 10),
        HarmonyReleaseAll (Some (- (5 / 1000)))]"
    unfolding s2e by (simp_all add: s1)
  have ch2: "chordChanged B_dim_chord s2"
    by (simp add: chordChanged_def s2 B_dim_changed)
  define s3 where "s3 = snd (playChord reliable B_dim_chord s2)"
  have s3e: "s3 = s2\<lparr>engine_log := engine_log s2 @ [HarmonyReleaseAll (Some (- (5 / 1000)))],
       timers := timers s2 @ [(clock s2 + 150, RebuildHarmony B_dim_chord)]\<rparr>"
    unfolding s3_def using s2(1-3) ch2 by (simp add: playChord_change reliable_ok)
  have "engine_log s3 = [HarmonyAttack [Str ''C3'', Str ''E3'', Str ''G3''] 0 (6 / 10),
        HarmonyReleaseAll (Some (- (5 / 1000))), HarmonyReleaseAll (Some (- (5 / 1000)))]"
    "timers s3 = [(150, RebuildHarmony B_dim_chord), (150, RebuildHarmony B_dim_chord)]"
    unfolding s3e by (simp_all add: s2 C_major_chord_def)
  then show ?thesis unfolding s3_def s2_def s1_def by simp
qed

theorem C2_equal_chord_retriggers_while_change_pending_witness:
  "length (timers (snd (playChord reliable B_dim_chord
      (snd (playChord reliable B_dim_chord
        (snd (playChord reliable C_major_chord ready_state))))))) = 2"
proof -
  from C2_equal_chord_retriggers_while_change_pending
  have "timers (snd (playChord reliable B_dim_chord
      (snd (playChord reliable B_dim_chord
        (snd (playChord reliable C_major_chord ready_state))))))
     = [(150, RebuildHarmony B_dim_chord), (150, RebuildHarmony B_dim_chord)]"
    by blast
  then show ?thesis by simp
qed

text \<open>
  Claim C7 fails on the code. With the harmony voice playing C major, a change to the
  chord at vertical position 0.1 (B diminished) ends, once the two timers of
  \<open>playChord\<close> have run, in a pulse intensity of 1.2, outside the interval [0,1].
\<close>

theorem C7_diminished_pulse_exceeds_one:
  "fst (getChordFromPosition 1 ready_state) = Inr C_major_chord
   \<and> fst (getChordFromPosition (1 / 10) ready_state) = Inr B_dim_chord
   \<and> map_option pulseIntensity (blackHole (fire_next reliable (fire_next reliable
        (snd (playChord reliable B_dim_chord (snd (playChord reliable C_major_chord ready_state)))))))
      = Some (12 / 10)"
proof -
  let ?s1 = "snd (playChord reliable C_major_chord ready_state)"
  have s1: "?s1 = pulseBlackHole 1
     (ready_state\<lparr>engine_log := engine_log ready_state @ [HarmonyAttack (chord_notes C_major_chord) 0 (6 / 10)],
        leftHandIsPlaying := True, currentChord := Some C_major_chord, lastChord := Some C_major_chord\<rparr>)"
    by (simp add: playChord_onset reliable_ok ready_fields)
  have f1: "audioStarted ?s1" "harmonySynth ?s1" "leftHandIsPlaying ?s1" "timers ?s1 = []"
    "lastChord ?s1 = Some C_major_chord"
    unfolding s1 by (simp_all add: pulseBlackHole_fields ready_fields)
  have b1: "blackHole ?s1 = Some \<lparr>pulseIntensity = 1, reactiveScale = 1\<rparr>"
    unfolding s1 by (simp add: pulseBlackHole_def pulse_def ready_fields)
  have ch: "chordChanged B_dim_chord ?s1"
    by (simp add: chordChanged_def f1 B_dim_changed)
  have "blackHole (fire_next reliable (fire_next reliable (snd (playChord reliable B_dim_chord ?s1))))
     = Some (pulse (changePulse B_dim_chord) \<lparr>pulseIntensity = 1, reactiveScale = 1\<rparr>)"
    using f1(1-4) ch b1 by (intro chord_change_pulse) 
  then have p: "map_option pulseIntensity (blackHole (fire_next reliable (fire_next reliable
        (snd (playChord reliable B_dim_chord ?s1))))) = Some (12 / 10)"
    by (simp add: pulse_def changePulse_B_dim)
  have c0: "fst (getChordFromPosition 1 ready_state) = Inr C_major_chord"
    by (simp add: getChordFromPosition_fst chordPosition_top C_major_chord_0 ready_fields)
  have c6: "fst (getChordFromPosition (1 / 10) ready_state) = Inr B_dim_chord"
    by (simp add: getChordFromPosition_fst chordPosition_tenth C_major_chord_6 ready_fields)
  from c0 c6 p show ?thesis by blast
qed

theorem C7_diminished_pulse_exceeds_one_witness:
  "1 < the (map_option pulseIntensity (blackHole (fire_next reliable (fire_next reliable
        (snd (playChord reliable B_dim_chord
           (snd (playChord reliable C_major_chord ready_state))))))))"
proof -
  from C7_diminished_pulse_exceeds_one
  have "map_option pulseIntensity (blackHole (fire_next reliable (fire_next reliable
        (snd (playChord reliable B_dim_chord
           (snd (playChord reliable C_major_chord ready_state))))))) = Some (12 / 10)"
    by blast
  then show ?thesis by (simp only: option.sel)
qed

section \<open>Engine failures\<close>

lemma playMelodyNote_returns: "fst (playMelodyNote fails note s) = Inr ()"
  by (simp add: playMelodyNote_def try_catch_eq Let_def)

lemma playChord_returns: "fst (playChord fails c s) = Inr ()"
  by (simp add: playChord_def try_catch_eq Let_def)

lemma updateSynths_returns: "fst (updateSynths fails s) = Inr ()"
  by (simp add: updateSynths_def try_catch_eq)

lemma onHandResults_returns: "fst (onHandResults fails r s) = Inr ()"
  by (simp add: onHandResults_def try_catch_eq)

lemma stopMelody_fail:
  "fails (MelodyRelease None) \<Longrightarrow> rightHandIsPlaying s \<Longrightarrow> melodySynth s \<Longrightarrow>
     stopMelody fails s = (Inl EngineError, s)"
  by (simp add: stopMelody_def and_then_engine_fail)

lemma stopChord_fail:
  "fails (HarmonyReleaseAll None) \<Longrightarrow> leftHandIsPlaying s \<Longrightarrow> harmonySynth s \<Longrightarrow>
     stopChord fails s = (Inl EngineError, s)"
  by (simp add: stopChord_def and_then_engine_fail)

lemma playMelodyNote_onset_fail:
  "fails (MelodyAttack note 0 (8 / 10)) \<Longrightarrow> audioStarted s \<Longrightarrow> melodySynth s \<Longrightarrow>
   \<not> rightHandIsPlaying s \<Longrightarrow>
     playMelodyNote fails note s = (Inr (), s\<lparr>lastMelodyNote := Some note\<rparr>)"
  by (simp add: playMelodyNote_def try_catch_eq and_then_engine_fail)

lemma playChord_onset_fail:
  "fails (HarmonyAttack (chord_notes c) 0 (6 / 10)) \<Longrightarrow> audioStarted s \<Longrightarrow> harmonySynth s \<Longrightarrow>
   \<not> leftHandIsPlaying s \<Longrightarrow> playChord fails c s = (Inr (), s)"
  by (simp add: playChord_def try_catch_eq and_then_engine_fail)

lemma playMelodyNote_change_attack_fails:
  assumes "audioStarted s" "melodySynth s" "rightHandIsPlaying s"
    "strict_neq (Some nv) (lastMelodyNote s)"
    "\<not> fails (MelodyRelease (Some (2 / 100)))" "fails (MelodyAttack nv (7 / 100) (7 / 10))"
  shows "playMelodyNote fails nv s = (Inr (),
     s\<lparr>lastMelodyNote := Some nv,
        engine_log := engine_log s @ [MelodyRelease (Some (2 / 100))]\<rparr>)"
  using assms
  by (simp add: playMelodyNote_def try_catch_eq and_then_engine_ok and_then_engine_fail)

text \<open>
  Claim C8 fails on the code. The melody voice plays C4; the note changes to D4 and the
  engine accepts the release but throws on the attack. \<open>playMelodyNote\<close> catches the
  error, yet the voice stays marked as playing and \<open>lastMelodyNote\<close> is already D4, so
  the next call with D4, on an engine that would accept it, does nothing: the released
  voice is not attacked again. \<open>stopMelody\<close>, which has no handler, throws a failing
  release out to its caller.
\<close>

theorem C8_failed_change_attack_not_retried:
  "engine_log (snd (playMelodyNote melody_attack_fails (Str ''D4'')
      (snd (playMelodyNote reliable (Str ''C4'') ready_state))))
     = [MelodyAttack (Str ''C4'') 0 (8 / 10), MelodyRelease (Some (2 / 100))]
   \<and> rightHandIsPlaying (snd (playMelodyNote melody_attack_fails (Str ''D4'')
      (snd (playMelodyNote reliable (Str ''C4'') ready_state))))
   \<and> playMelodyNote reliable (Str ''D4'')
        (snd (playMelodyNote melody_attack_fails (Str ''D4'')
          (snd (playMelodyNote reliable (Str ''C4'') ready_state))))
      = (Inr (), snd (playMelodyNote melody_attack_fails (Str ''D4'')
          (snd (playMelodyNote reliable (Str ''C4'') ready_state))))
   \<and> fst (stopMelody broken (snd (playMelodyNote reliable (Str ''C4'') ready_state)))
      = Inl EngineError"
proof -
  define s1 where "s1 = snd (playMelodyNote reliable (Str ''C4'') ready_state)"
  have s1e: "s1 = pulseBlackHole 1
     (ready_state\<lparr>lastMelodyNote := Some (Str ''C4''),
        engine_log := engine_log ready_state @ [MelodyAttack (Str ''C4'') 0 (8 / 10)],
        rightHandIsPlaying := True, currentMelodyNote := Some (Str ''C4'')\<rparr>)"
    unfolding s1_def by (simp add: playMelodyNote_onset reliable_ok ready_fields)
  have s1: "audioStarted s1" "melodySynth s1" "rightHandIsPlaying s1"
    "lastMelodyNote s1 = Some (Str ''C4'')"
    "engine_log s1 = [MelodyAttack (Str ''C4'') 0 (8 / 10)]"
    unfolding s1e by (simp_all add: pulseBlackHole_fields ready_fields)
  define s2 where "s2 = snd (playMelodyNote melody_attack_fails (Str ''D4'') s1)"
  have s2e: "s2 = s1\<lparr>lastMelodyNote := Some (Str ''D4''),
        engine_log := engine_log s1 @ [MelodyRelease (Some (2 / 100))]\<rparr>"
    unfolding s2_def using s1 by (simp add: playMelodyNote_change_attack_fails)
  have s2: "rightHandIsPlaying s2" "lastMelodyNote s2 = Some (Str ''D4'')"
    "engine_log s2 = [MelodyAttack (Str ''C4'') 0 (8 / 10), MelodyRelease (Some (2 / 100))]"
    unfolding s2e by (simp_all add: s1)
  have noop: "playMelodyNote reliable (Str ''D4'') s2 = (Inr (), s2)"
    using s2(1,2) by (rule playMelodyNote_same)
  have stop: "fst (stopMelody broken s1) = Inl EngineError"
    using s1 by (simp add: stopMelody_fail broken_def)
  from s2 noop stop show ?thesis unfolding s2_def s1_def by simp
qed

theorem C8_failed_change_attack_not_retried_witness:
  "attacks (engine_log (snd (playMelodyNote reliable (Str ''D4'')
      (snd (playMelodyNote melody_attack_fails (Str ''D4'')
        (snd (playMelodyNote reliable (Str ''C4'') ready_state))))))) = 1"
proof -
  from C8_failed_change_attack_not_retried
  have "engine_log (snd (playMelodyNote melody_attack_fails (Str ''D4'')
      (snd (playMelodyNote reliable (Str ''C4'') ready_state))))
     = [MelodyAttack (Str ''C4'') 0 (8 / 10), MelodyRelease (Some (2 / 100))]"
    and "playMelodyNote reliable (Str ''D4'')
        (snd (playMelodyNote melody_attack_fails (Str ''D4'')
          (snd (playMelodyNote reliable (Str ''C4'') ready_state))))
      = (Inr (), snd (playMelodyNote melody_attack_fails (Str ''D4'')
          (snd (playMelodyNote reliable (Str ''C4'') ready_state))))"
    by blast+
  then show ?thesis by (simp add: attacks_def)
qed

section \<open>Scales without a chord-type row\<close>

lemma parity_chordType:
  "scale \<notin> {''major'', ''minor'', ''majorBlues'', ''minorBlues''} \<Longrightarrow>
     chordTypeFor scale d = (if js_rem d 2 = 0 then ''major'' else ''minor'')"
  by (simp add: chordTypeFor_def)

lemma chordTypes_parity:
  "chordTypes (if b then ''major'' else ''minor'') \<noteq> None"
  by (simp add: chordTypes_def)

lemma chordAtPosition_parity:
  assumes "scales (selectedScale s) = Some row"
    "selectedScale s \<notin> {''major'', ''minor'', ''majorBlues'', ''minorBlues''}"
  shows "\<exists>c. chordAtPosition p s = Inr c
     \<and> chord_type c = (if js_rem (js_rem p (int (length row))) 2 = 0 then ''major'' else ''minor'')"
proof -
  let ?d = "js_rem p (int (length row))"
  obtain iv where iv: "chordTypes (if js_rem ?d 2 = 0 then ''major'' else ''minor'') = Some iv"
    using chordTypes_parity [of "js_rem ?d 2 = 0"] by blast
  show ?thesis
    using assms iv by (simp add: chordAtPosition_def parity_chordType Let_def)
qed

text \<open>
  Claim C5, as amended. For every identifier that is a key of the \<open>scales\<close> table,
  \<open>getNoteFromPosition\<close> returns a note; when the identifier is moreover none of the four
  with a chord-type row of their own (that is, for pentatonic and chromatic),
  \<open>getChordFromPosition\<close> returns a chord whose type follows the parity of the scale
  degree: major on even degrees, minor on odd ones.
\<close>

theorem C5_parity_fallback_for_table_scales:
  assumes "scales scale = Some row"
  shows "(\<exists>n. fst (getNoteFromPosition y scale s) = Inr n)
    \<and> (scale \<notin> {''major'', ''minor'', ''majorBlues'', ''minorBlues''} \<longrightarrow>
         (\<exists>c. fst (getChordFromPosition y (s\<lparr>selectedScale := scale\<rparr>)) = Inr c
            \<and> chord_type c = (if js_rem (js_rem (chordPosition y) (int (length row))) 2 = 0
                              then ''major'' else ''minor'')))"
proof (intro conjI impI)
  show "\<exists>n. fst (getNoteFromPosition y scale s) = Inr n"
    using assms by (simp add: getNoteFromPosition_fst noteAtPosition_def Let_def)
next
  assume "scale \<notin> {''major'', ''minor'', ''majorBlues'', ''minorBlues''}"
  then show "\<exists>c. fst (getChordFromPosition y (s\<lparr>selectedScale := scale\<rparr>)) = Inr c
            \<and> chord_type c = (if js_rem (js_rem (chordPosition y) (int (length row))) 2 = 0
                              then ''major'' else ''minor'')"
    unfolding getChordFromPosition_fst
    using assms by (intro chordAtPosition_parity) simp_all
qed

theorem C5_parity_fallback_for_table_scales_witness:
  "scales ''pentatonic'' = Some [0, 2, 4, 7, 9, 12]
   \<and> ''pentatonic'' \<notin> {''major'', ''minor'', ''majorBlues'', ''minorBlues''}
   \<and> (\<exists>n. fst (getNoteFromPosition (1 / 2) ''pentatonic'' ready_state) = Inr n)
   \<and> (\<exists>c. fst (getChordFromPosition (1 / 2) (ready_state\<lparr>selectedScale := ''pentatonic''\<rparr>))
            = Inr c \<and> chord_type c = ''minor'')"
proof -
  have row: "scales ''pentatonic'' = Some [0, 2, 4, 7, 9, 12]"
    by (simp add: scales_def)
  have other: "''pentatonic'' \<notin> {''major'', ''minor'', ''majorBlues'', ''minorBlues''}"
    by simp
  have pos: "chordPosition (1 / 2) = 3"
    by (simp add: chordPosition_def mapRange_def)
  have odd: "js_rem (js_rem 3 (int (length [0, 2, 4, 7, 9, 12 :: int]))) 2 \<noteq> 0"
    by (simp add: js_rem_def)
  from C5_parity_fallback_for_table_scales [OF row, of "1 / 2" ready_state] other
  have n: "\<exists>n. fst (getNoteFromPosition (1 / 2) ''pentatonic'' ready_state) = Inr n"
    and c: "\<exists>c. fst (getChordFromPosition (1 / 2) (ready_state\<lparr>selectedScale := ''pentatonic''\<rparr>))
            = Inr c
          \<and> chord_type c = (if js_rem (js_rem (chordPosition (1 / 2))
                (int (length [0, 2, 4, 7, 9, 12 :: int]))) 2 = 0 then ''major'' else ''minor'')"
    by blast+
  from c pos odd
  have c': "\<exists>c. fst (getChordFromPosition (1 / 2) (ready_state\<lparr>selectedScale := ''pentatonic''\<rparr>))
            = Inr c \<and> chord_type c = ''minor''"
    by simp
  from row other n c' show ?thesis by blast
qed

text \<open>
  Claim C5 as stated fails for an identifier outside the \<open>scales\<close> table: both functions
  throw a TypeError on the scale \<open>dorian\<close>.
\<close>

theorem C5_unknown_scale_throws_counterexample:
  "fst (getChordFromPosition (1 / 2) (initial_state\<lparr>selectedScale := ''dorian''\<rparr>))
     = Inl TypeError
   \<and> fst (getNoteFromPosition (1 / 2) ''dorian'' initial_state) = Inl TypeError"
  by (simp add: getChordFromPosition_def chordAtPosition_def getNoteFromPosition_def
      noteAtPosition_def scales_def inherited_length_def initial_state_def)

section \<open>Hands and voices\<close>

lemma mapPinchToReverb_range: "0 \<le> mapPinchToReverb d \<and> mapPinchToReverb d \<le> 1"
  by (cases d) (simp_all add: mapPinchToReverb_def Let_def)

lemma mapFingerToVolume_range: "0 \<le> mapFingerToVolume d \<and> mapFingerToVolume d \<le> 1"
  by (cases d) (simp_all add: mapFingerToVolume_def Let_def)

lemma clamp_mapPinchToReverb: "max 0 (min (mapPinchToReverb d) 1) = mapPinchToReverb d"
  using mapPinchToReverb_range [of d] by simp

lemma clamp_mapFingerToVolume: "max 0 (min (mapFingerToVolume d) 1) = mapFingerToVolume d"
  using mapFingerToVolume_range [of d] by simp

lemma noteAtPosition_cong:
  "selectedRoot s' = selectedRoot s \<Longrightarrow> octave s' = octave s \<Longrightarrow>
     noteAtPosition p scale s' = noteAtPosition p scale s"
  by (simp add: noteAtPosition_def Let_def split: option.splits)

lemma chordAtPosition_cong:
  "selectedScale s' = selectedScale s \<Longrightarrow> selectedRoot s' = selectedRoot s \<Longrightarrow>
   octave s' = octave s \<Longrightarrow> chordAtPosition p s' = chordAtPosition p s"
  by (simp add: chordAtPosition_def Let_def split: option.splits)

lemma pulseBlackHole_eq:
  "pulseBlackHole i s = s\<lparr>blackHole := map_option (pulse i) (blackHole s)\<rparr>"
  by (cases s) (simp add: pulseBlackHole_def split: option.splits)

lemma same_log: "s\<lparr>engine_log := engine_log s\<rparr> = s"
  by (cases s) simp

lemma accepted_simps:
  "accepted fails [] = []"
  "accepted fails (c # cs) = (if fails c then [] else c # accepted fails cs)"
  by (simp_all add: accepted_def)

lemma setReverb_fst: "fst (setReverb fails hand w s) = Inr ()"
  by (simp add: setReverb_def try_catch_eq Let_def)

lemma setVolume_fst: "fst (setVolume fails hand v s) = Inr ()"
  by (simp add: setVolume_def try_catch_eq Let_def)

lemma setReverb_snd:
  "snd (setReverb fails hand w s) =
     (if audioStarted s \<and> reverb s
      then s\<lparr>engine_log := engine_log s @ accepted fails [ReverbSetWet (max 0 (min w 1))]\<rparr>
      else s)"
  by (simp add: setReverb_def try_catch_eq Let_def engine_do_def accepted_simps same_log)

lemma setVolume_right_snd:
  "snd (setVolume fails ''right'' v s) =
     (if audioStarted s \<and> leftHandVolume s \<noteq> max 0 (min v 1)
      then s\<lparr>leftHandVolume := max 0 (min v 1),
             engine_log := engine_log s
               @ (if melodySynth s then accepted fails [MelodySetVolume (max 0 (min v 1))] else [])\<rparr>
      else s)"
  by (simp add: setVolume_def try_catch_eq Let_def and_then_pure engine_do_def pure_step_def
      accepted_simps)

lemma setVolume_left_snd:
  "snd (setVolume fails ''left'' v s) =
     (if audioStarted s \<and> rightHandVolume s \<noteq> max 0 (min v 1)
      then s\<lparr>rightHandVolume := max 0 (min v 1),
             engine_log := engine_log s
               @ (if harmonySynth s
                  then accepted fails [HarmonySetVolume (max 0 (min v 1) * (6 / 10))] else [])\<rparr>
      else s)"
  by (simp add: setVolume_def try_catch_eq Let_def and_then_pure engine_do_def pure_step_def
      accepted_simps)

lemma playMelodyNote_snd:
  "snd (playMelodyNote fails nv s) =
     (if \<not> audioStarted s \<or> \<not> melodySynth s then s
      else if \<not> rightHandIsPlaying s then
        (if fails (MelodyAttack nv 0 (8 / 10)) then s\<lparr>lastMelodyNote := Some nv\<rparr>
         else pulseBlackHole 1
           (s\<lparr>lastMelodyNote := Some nv,
              engine_log := engine_log s @ [MelodyAttack nv 0 (8 / 10)],
              rightHandIsPlaying := True, currentMelodyNote := Some nv\<rparr>))
      else if strict_neq (Some nv) (lastMelodyNote s) then
        (if fails (MelodyRelease (Some (2 / 100))) then s\<lparr>lastMelodyNote := Some nv\<rparr>
         else if fails (MelodyAttack nv (7 / 100) (7 / 10))
         then s\<lparr>lastMelodyNote := Some nv,
                engine_log := engine_log s @ [MelodyRelease (Some (2 / 100))]\<rparr>
         else pulseBlackHole (8 / 10)
           (s\<lparr>lastMelodyNote := Some nv,
              engine_log := engine_log s
                @ [MelodyRelease (Some (2 / 100)), MelodyAttack nv (7 / 100) (7 / 10)],
              currentMelodyNote := Some nv\<rparr>))
      else s\<lparr>lastMelodyNote := Some nv\<rparr>)"
  by (simp add: playMelodyNote_def try_catch_eq Let_def and_then_engine_ok and_then_engine_fail
      pure_step_def)

lemma playChord_snd:
  "snd (playChord fails c s) =
     (if \<not> audioStarted s \<or> \<not> harmonySynth s then s
      else if \<not> leftHandIsPlaying s then
        (if fails (HarmonyAttack (chord_notes c) 0 (6 / 10)) then s
         else pulseBlackHole 1
           (s\<lparr>engine_log := engine_log s @ [HarmonyAttack (chord_notes c) 0 (6 / 10)],
              leftHandIsPlaying := True, currentChord := Some c, lastChord := Some c\<rparr>))
      else if chordChanged c s then
        (if fails (HarmonyReleaseAll (Some (- (5 / 1000)))) then s
         else s\<lparr>engine_log := engine_log s @ [HarmonyReleaseAll (Some (- (5 / 1000)))],
                timers := timers s @ [(clock s + 150, RebuildHarmony c)]\<rparr>)
      else s)"
  by (simp add: playChord_def try_catch_eq Let_def and_then_engine_ok and_then_engine_fail
      pure_step_def setTimeout_def)

lemma settings_setReverb: "settings (snd (setReverb fails hand w s)) = settings s"
  by (simp add: setReverb_snd settings_def)

lemma settings_setVolume: "settings (snd (setVolume fails hand v s)) = settings s"
  by (cases "hand = ''left''"; cases "hand = ''right''")
     (simp_all add: setVolume_left_snd setVolume_right_snd setVolume_other settings_def)

lemma settings_playMelodyNote: "settings (snd (playMelodyNote fails nv s)) = settings s"
  by (simp add: playMelodyNote_snd pulseBlackHole_eq settings_def)

lemma settings_playChord: "settings (snd (playChord fails c s)) = settings s"
  by (simp add: playChord_snd pulseBlackHole_eq settings_def)

lemma settings_and_then:
  assumes "\<And>s. settings (snd (m s)) = settings s" "\<And>s. settings (snd (k s)) = settings s"
  shows "settings (snd (and_then m k s)) = settings s"
proof (cases "m s")
  case (Pair res s1)
  have s1: "settings s1 = settings s" using assms(1) [of s] Pair by simp
  show ?thesis
  proof (cases res)
    case (Inl e)
    then show ?thesis using Pair s1 by (simp add: and_then_def)
  next
    case (Inr u)
    then show ?thesis using Pair s1 assms(2) [of s1] by (simp add: and_then_def)
  qed
qed

lemma draw_with_snd: "snd (draw_with ps s) = s"
  by (simp add: draw_with_def)

lemma and_then_returned: "fst (m s) = Inr u \<Longrightarrow> and_then m k s = k (snd (m s))"
  by (cases "m s") (simp add: and_then_def)

lemma snd_and_then_draws:
  "snd (and_then m (and_then (draw_with a) (and_then (draw_with b) (draw_with c))) s)
     = snd (m s)"
  by (cases "m s") (simp add: and_then_def draw_with_def split: sum.splits)

lemma draws_return:
  "None \<notin> set a \<Longrightarrow> None \<notin> set b \<Longrightarrow> None \<notin> set c \<Longrightarrow> fst (m s) = Inr () \<Longrightarrow>
     fst (and_then m (and_then (draw_with a) (and_then (draw_with b) (draw_with c))) s) = Inr ()"
  by (cases "m s") (simp add: and_then_def draw_with_def)

text \<open>A hand handler, once the wrist is there and the scale lookup succeeds.\<close>

lemma processRightHand_run:
  assumes "8 < length lm" "landmark_at lm 0 = Some wrist"
    "noteAtPosition (melodyPosition (py wrist)) (selectedScale s) s = Inr nv"
  shows "processRightHand fails lm s =
     and_then (playMelodyNote fails nv)
       (and_then (draw_with [landmark_at lm 4])
          (and_then (draw_with [landmark_at lm 4, landmark_at lm 8])
             (draw_with [landmark_at lm 4, landmark_at lm 12])))
       ((snd (setVolume fails ''right''
            (mapFingerToVolume (calculateDistance (landmark_at lm 12) (landmark_at lm 4)))
            (snd (setReverb fails ''right''
               (mapPinchToReverb (calculateDistance (landmark_at lm 4) (landmark_at lm 8)))
               (s\<lparr>isRightHandPresent := True\<rparr>)))))
        \<lparr>lastRightHandY := py wrist\<rparr>)"
proof -
  define s1 where "s1 = s\<lparr>isRightHandPresent := True\<rparr>"
  define w where "w = mapPinchToReverb (calculateDistance (landmark_at lm 4) (landmark_at lm 8))"
  define g where "g = mapFingerToVolume (calculateDistance (landmark_at lm 12) (landmark_at lm 4))"
  define sa where "sa = snd (setReverb fails ''right'' w s1)"
  define sb where "sb = snd (setVolume fails ''right'' g sa)"
  define sc where "sc = sb\<lparr>lastRightHandY := py wrist\<rparr>"
  have "settings sb = settings s1"
    unfolding sb_def sa_def by (simp only: settings_setVolume settings_setReverb)
  moreover have "settings s1 = settings s"
    unfolding s1_def by (simp add: settings_def)
  ultimately have same: "selectedScale sb = selectedScale s" "selectedRoot sc = selectedRoot s"
    "octave sc = octave s"
    by (simp_all add: settings_def sc_def)
  have "noteAtPosition (melodyPosition (py wrist)) (selectedScale s) sc
      = noteAtPosition (melodyPosition (py wrist)) (selectedScale s) s"
    by (rule noteAtPosition_cong) (simp_all add: same)
  then have n: "getNoteFromPosition (py wrist) (selectedScale sb) sb = (Inr nv, sc)"
    by (simp add: getNoteFromPosition_def Let_def same assms(3) flip: sc_def)
  have step1: "and_then (setReverb fails ''right'' w) k s1 = k sa" for k
    unfolding sa_def by (rule and_then_returned) (rule setReverb_fst)
  have step2: "and_then (setVolume fails ''right'' g) k sa = k sb" for k
    unfolding sb_def by (rule and_then_returned) (rule setVolume_fst)
  have "processRightHand fails lm s =
      and_then (playMelodyNote fails nv)
        (and_then (draw_with [landmark_at lm 4])
           (and_then (draw_with [landmark_at lm 4, landmark_at lm 8])
              (draw_with [landmark_at lm 4, landmark_at lm 12]))) sc"
    apply (simp only: processRightHand_def Let_def assms(1,2) if_True option.case)
    apply (simp only: flip: s1_def w_def g_def)
    apply (simp only: step1 step2 n prod.case sum.case)
    done
  then show ?thesis
    unfolding sc_def sb_def sa_def s1_def w_def g_def .
qed

lemma processLeftHand_run:
  assumes "8 < length lm" "landmark_at lm 0 = Some wrist"
    "chordAtPosition (chordPosition (py wrist)) s = Inr c"
  shows "processLeftHand fails lm s =
     and_then (playChord fails c)
       (and_then (draw_with [Some wrist])
          (and_then (draw_with [landmark_at lm 4, landmark_at lm 8])
             (draw_with [landmark_at lm 4, landmark_at lm 12])))
       ((snd (setVolume fails ''left''
            (mapFingerToVolume (calculateDistance (landmark_at lm 12) (landmark_at lm 4)))
            (snd (setReverb fails ''left''
               (mapPinchToReverb (calculateDistance (landmark_at lm 4) (landmark_at lm 8)))
               (s\<lparr>isLeftHandPresent := True\<rparr>)))))
        \<lparr>lastLeftHandY := py wrist\<rparr>)"
proof -
  define s1 where "s1 = s\<lparr>isLeftHandPresent := True\<rparr>"
  define w where "w = mapPinchToReverb (calculateDistance (landmark_at lm 4) (landmark_at lm 8))"
  define g where "g = mapFingerToVolume (calculateDistance (landmark_at lm 12) (landmark_at lm 4))"
  define sa where "sa = snd (setReverb fails ''left'' w s1)"
  define sb where "sb = snd (setVolume fails ''left'' g sa)"
  define sc where "sc = sb\<lparr>lastLeftHandY := py wrist\<rparr>"
  have "settings sb = settings s1"
    unfolding sb_def sa_def by (simp only: settings_setVolume settings_setReverb)
  moreover have "settings s1 = settings s"
    unfolding s1_def by (simp add: settings_def)
  ultimately have same: "selectedScale sc = selectedScale s" "selectedRoot sc = selectedRoot s"
    "octave sc = octave s"
    by (simp_all add: settings_def sc_def)
  have "chordAtPosition (chordPosition (py wrist)) sc = chordAtPosition (chordPosition (py wrist)) s"
    by (rule chordAtPosition_cong) (simp_all add: same)
  then have n: "getChordFromPosition (py wrist) sb = (Inr c, sc)"
    by (simp add: getChordFromPosition_def Let_def assms(3) flip: sc_def)
  have step1: "and_then (setReverb fails ''left'' w) k s1 = k sa" for k
    unfolding sa_def by (rule and_then_returned) (rule setReverb_fst)
  have step2: "and_then (setVolume fails ''left'' g) k sa = k sb" for k
    unfolding sb_def by (rule and_then_returned) (rule setVolume_fst)
  have "processLeftHand fails lm s =
      and_then (playChord fails c)
        (and_then (draw_with [Some wrist])
           (and_then (draw_with [landmark_at lm 4, landmark_at lm 8])
              (draw_with [landmark_at lm 4, landmark_at lm 12]))) sc"
    apply (simp only: processLeftHand_def Let_def assms(1,2) if_True option.case)
    apply (simp only: flip: s1_def w_def g_def)
    apply (simp only: step1 step2 n prod.case sum.case)
    done
  then show ?thesis
    unfolding sc_def sb_def sa_def s1_def w_def g_def .
qed

lemma processRightHand_snd:
  assumes "8 < length lm" "landmark_at lm 0 = Some wrist"
    "noteAtPosition (melodyPosition (py wrist)) (selectedScale s) s = Inr nv"
  shows "snd (processRightHand fails lm s) =
     snd (playMelodyNote fails nv
       ((snd (setVolume fails ''right''
            (mapFingerToVolume (calculateDistance (landmark_at lm 12) (landmark_at lm 4)))
            (snd (setReverb fails ''right''
               (mapPinchToReverb (calculateDistance (landmark_at lm 4) (landmark_at lm 8)))
               (s\<lparr>isRightHandPresent := True\<rparr>)))))
        \<lparr>lastRightHandY := py wrist\<rparr>))"
  unfolding processRightHand_run [OF assms] by (rule snd_and_then_draws)

lemma processLeftHand_snd:
  assumes "8 < length lm" "landmark_at lm 0 = Some wrist"
    "chordAtPosition (chordPosition (py wrist)) s = Inr c"
  shows "snd (processLeftHand fails lm s) =
     snd (playChord fails c
       ((snd (setVolume fails ''left''
            (mapFingerToVolume (calculateDistance (landmark_at lm 12) (landmark_at lm 4)))
            (snd (setReverb fails ''left''
               (mapPinchToReverb (calculateDistance (landmark_at lm 4) (landmark_at lm 8)))
               (s\<lparr>isLeftHandPresent := True\<rparr>)))))
        \<lparr>lastLeftHandY := py wrist\<rparr>))"
  unfolding processLeftHand_run [OF assms] by (rule snd_and_then_draws)

lemma processRightHand_fst:
  assumes "8 < length lm" "landmark_at lm 0 = Some wrist"
    "noteAtPosition (melodyPosition (py wrist)) (selectedScale s) s = Inr nv"
    "landmark_at lm 4 \<noteq> None" "landmark_at lm 8 \<noteq> None" "landmark_at lm 12 \<noteq> None"
  shows "fst (processRightHand fails lm s) = Inr ()"
  unfolding processRightHand_run [OF assms(1-3)]
  using assms(4-6) by (intro draws_return playMelodyNote_returns) auto

lemma processLeftHand_fst:
  assumes "8 < length lm" "landmark_at lm 0 = Some wrist"
    "chordAtPosition (chordPosition (py wrist)) s = Inr c"
    "landmark_at lm 4 \<noteq> None" "landmark_at lm 8 \<noteq> None" "landmark_at lm 12 \<noteq> None"
  shows "fst (processLeftHand fails lm s) = Inr ()"
  unfolding processLeftHand_run [OF assms(1-3)]
  using assms(4-6) by (intro draws_return playChord_returns) auto

text \<open>No hand handler changes the audio flags or the musical settings.\<close>

lemma settings_lastRightHandY: "settings (s\<lparr>lastRightHandY := y\<rparr>) = settings s"
  by (simp add: settings_def)

lemma settings_lastLeftHandY: "settings (s\<lparr>lastLeftHandY := y\<rparr>) = settings s"
  by (simp add: settings_def)

lemma settings_melody_tail:
  "settings (snd (case getNoteFromPosition y scale s2 of
       (Inl e, s3) \<Rightarrow> (Inl e, s3)
     | (Inr nv, s3) \<Rightarrow>
         and_then (playMelodyNote fails nv)
           (and_then (draw_with a) (and_then (draw_with b) (draw_with c))) s3))
   = settings s2"
  by (simp add: getNoteFromPosition_def Let_def snd_and_then_draws settings_playMelodyNote
      settings_lastRightHandY split: sum.splits)

lemma settings_harmony_tail:
  "settings (snd (case getChordFromPosition y s2 of
       (Inl e, s3) \<Rightarrow> (Inl e, s3)
     | (Inr ch, s3) \<Rightarrow>
         and_then (playChord fails ch)
           (and_then (draw_with a) (and_then (draw_with b) (draw_with c))) s3))
   = settings s2"
  by (simp add: getChordFromPosition_def Let_def snd_and_then_draws settings_playChord
      settings_lastLeftHandY split: sum.splits)

lemma settings_processRightHand: "settings (snd (processRightHand fails lm s)) = settings s"
proof -
  have present: "settings (s\<lparr>isRightHandPresent := True\<rparr>) = settings s"
    by (simp add: settings_def)
  show ?thesis
  proof (cases "8 < length lm")
    case False
    then show ?thesis by (simp add: processRightHand_def Let_def present)
  next
    case True
    show ?thesis
    proof (cases "landmark_at lm 0")
      case None
      then show ?thesis using True by (simp add: processRightHand_def Let_def present)
    next
      case (Some wrist)
      have "settings (snd (processRightHand fails lm s)) = settings (s\<lparr>isRightHandPresent := True\<rparr>)"
        apply (simp only: processRightHand_def Let_def True Some if_True option.case)
        apply (intro settings_and_then settings_setReverb settings_setVolume settings_melody_tail)
        done
      then show ?thesis by (simp only: present)
    qed
  qed
qed

lemma settings_processLeftHand: "settings (snd (processLeftHand fails lm s)) = settings s"
proof -
  have present: "settings (s\<lparr>isLeftHandPresent := True\<rparr>) = settings s"
    by (simp add: settings_def)
  show ?thesis
  proof (cases "8 < length lm")
    case False
    then show ?thesis by (simp add: processLeftHand_def Let_def present)
  next
    case True
    show ?thesis
    proof (cases "landmark_at lm 0")
      case None
      then show ?thesis using True by (simp add: processLeftHand_def Let_def present)
    next
      case (Some wrist)
      have "settings (snd (processLeftHand fails lm s)) = settings (s\<lparr>isLeftHandPresent := True\<rparr>)"
        apply (simp only: processLeftHand_def Let_def True Some if_True option.case)
        apply (intro settings_and_then settings_setReverb settings_setVolume settings_harmony_tail)
        done
      then show ?thesis by (simp only: present)
    qed
  qed
qed

lemma settings_process_hands: "settings (snd (process_hands fails recs s)) = settings s"
proof (induction recs arbitrary: s)
  case Nil
  show ?case by (simp add: pure_step_def)
next
  case (Cons rec recs)
  obtain lm classification where rec: "rec = (lm, classification)" by (cases rec)
  show ?case
  proof (cases classification)
    case None
    then show ?thesis using Cons.IH rec by simp
  next
    case (Some label)
    have "settings (snd (and_then (if label \<noteq> ''Left'' then processLeftHand fails lm
                                   else processRightHand fails lm)
                          (process_hands fails recs) s)) = settings s"
      by (rule settings_and_then) (simp_all add: settings_processLeftHand settings_processRightHand Cons.IH)
    then show ?thesis using rec Some by (simp add: Let_def)
  qed
qed

lemma settings_frame_start: "settings (frame_start r s) = settings s"
  by (simp add: frame_start_def settings_def)

text \<open>The loop over the records, cut after the record with index \<open>k\<close>.\<close>

lemma process_hands_append:
  "process_hands fails (xs @ ys) s = and_then (process_hands fails xs) (process_hands fails ys) s"
proof (induction xs arbitrary: s)
  case Nil
  show ?case by (simp add: and_then_pure)
next
  case (Cons rec xs)
  obtain lm classification where rec: "rec = (lm, classification)" by (cases rec)
  show ?case
  proof (cases classification)
    case None
    then show ?thesis using Cons.IH rec by simp
  next
    case (Some label)
    then show ?thesis using rec Cons.IH
      by (simp add: Let_def and_then_def split: prod.splits sum.splits)
  qed
qed

lemma process_hands_reached:
  assumes "k < length recs" "recs ! k = (lm, Some label)"
    "process_hands fails (take k recs) s0 = (Inr (), sk)"
  shows "snd (process_hands fails (take (Suc k) recs) s0)
     = snd ((if label \<noteq> ''Left'' then processLeftHand fails lm
             else processRightHand fails lm) sk)"
proof -
  have "take (Suc k) recs = take k recs @ [(lm, Some label)]"
    using assms(1,2) by (simp add: take_Suc_conv_app_nth)
  then have "process_hands fails (take (Suc k) recs) s0
      = process_hands fails [(lm, Some label)] sk"
    using assms(3) by (simp only: process_hands_append) (simp add: and_then_def)
  then show ?thesis
    by (simp add: Let_def and_then_def pure_step_def split: prod.splits sum.splits)
qed

text \<open>What one record does to the engine and to the state of the two voices.\<close>

lemma melody_record_effect:
  assumes running: "audioStarted s" "reverb s" "melodySynth s"
    and hand: "8 < length lm" "landmark_at lm 0 = Some wrist"
    and nt: "noteAtPosition (melodyPosition (py wrist)) (selectedScale s) s = Inr nv"
    and wet: "wet = mapPinchToReverb (calculateDistance (landmark_at lm 4) (landmark_at lm 8))"
    and gain: "gain = mapFingerToVolume (calculateDistance (landmark_at lm 12) (landmark_at lm 4))"
    and after: "s' = snd (processRightHand fails lm s)"
  shows "engine_log s' = engine_log s
           @ accepted fails [ReverbSetWet wet]
           @ accepted fails (if leftHandVolume s \<noteq> gain then [MelodySetVolume gain] else [])
           @ accepted fails
               (if \<not> rightHandIsPlaying s then [MelodyAttack nv 0 (8 / 10)]
                else if strict_neq (Some nv) (lastMelodyNote s)
                then [MelodyRelease (Some (2 / 100)), MelodyAttack nv (7 / 100) (7 / 10)]
                else [])"
    and "leftHandVolume s' = gain"
    and "lastMelodyNote s' = Some nv"
    and "rightHandIsPlaying s' = (rightHandIsPlaying s \<or> \<not> fails (MelodyAttack nv 0 (8 / 10)))"
    and "leftHandIsPlaying s' = leftHandIsPlaying s"
    and "currentChord s' = currentChord s"
    and "lastChord s' = lastChord s"
    and "rightHandVolume s' = rightHandVolume s"
    and "timers s' = timers s"
    and "clock s' = clock s"
    and "isRightHandPresent s'"
    and "isLeftHandPresent s' = isLeftHandPresent s"
    and "canvasReady s' = canvasReady s"
    and "blackHole s' = (if \<not> rightHandIsPlaying s then
            (if fails (MelodyAttack nv 0 (8 / 10)) then blackHole s
             else map_option (pulse 1) (blackHole s))
          else if strict_neq (Some nv) (lastMelodyNote s)
               \<and> \<not> fails (MelodyRelease (Some (2 / 100)))
               \<and> \<not> fails (MelodyAttack nv (7 / 100) (7 / 10))
          then map_option (pulse (8 / 10)) (blackHole s) else blackHole s)"
proof -
  define sc where "sc = (snd (setVolume fails ''right'' gain
      (snd (setReverb fails ''right'' wet (s\<lparr>isRightHandPresent := True\<rparr>)))))
      \<lparr>lastRightHandY := py wrist\<rparr>"
  have s': "s' = snd (playMelodyNote fails nv sc)"
    unfolding after sc_def wet gain using hand nt by (rule processRightHand_snd)
  have w: "max 0 (min wet 1) = wet" unfolding wet by (rule clamp_mapPinchToReverb)
  have g: "max 0 (min gain 1) = gain" unfolding gain by (rule clamp_mapFingerToVolume)
  have sc: "audioStarted sc" "melodySynth sc"
    "rightHandIsPlaying sc = rightHandIsPlaying s" "lastMelodyNote sc = lastMelodyNote s"
    "engine_log sc = engine_log s @ accepted fails [ReverbSetWet wet]
       @ accepted fails (if leftHandVolume s \<noteq> gain then [MelodySetVolume gain] else [])"
    "leftHandVolume sc = gain" "leftHandIsPlaying sc = leftHandIsPlaying s"
    "currentChord sc = currentChord s" "lastChord sc = lastChord s"
    "rightHandVolume sc = rightHandVolume s" "timers sc = timers s" "clock sc = clock s"
    "isRightHandPresent sc" "isLeftHandPresent sc = isLeftHandPresent s"
    "canvasReady sc = canvasReady s" "blackHole sc = blackHole s"
    unfolding sc_def using running
    by (simp_all add: setVolume_right_snd setReverb_snd w g accepted_simps)
  show "engine_log s' = engine_log s
           @ accepted fails [ReverbSetWet wet]
           @ accepted fails (if leftHandVolume s \<noteq> gain then [MelodySetVolume gain] else [])
           @ accepted fails
               (if \<not> rightHandIsPlaying s then [MelodyAttack nv 0 (8 / 10)]
                else if strict_neq (Some nv) (lastMelodyNote s)
                then [MelodyRelease (Some (2 / 100)), MelodyAttack nv (7 / 100) (7 / 10)]
                else [])"
    unfolding s' playMelodyNote_snd by (simp add: pulseBlackHole_eq sc accepted_simps)
  show "leftHandVolume s' = gain"
    unfolding s' playMelodyNote_snd by (simp add: pulseBlackHole_eq sc)
  show "lastMelodyNote s' = Some nv"
    unfolding s' playMelodyNote_snd by (simp add: pulseBlackHole_eq sc)
  show "rightHandIsPlaying s' = (rightHandIsPlaying s \<or> \<not> fails (MelodyAttack nv 0 (8 / 10)))"
    unfolding s' playMelodyNote_snd by (simp add: pulseBlackHole_eq sc)
  show "leftHandIsPlaying s' = leftHandIsPlaying s"
    unfolding s' playMelodyNote_snd by (simp add: pulseBlackHole_eq sc)
  show "currentChord s' = currentChord s"
    unfolding s' playMelodyNote_snd by (simp add: pulseBlackHole_eq sc)
  show "lastChord s' = lastChord s"
    unfolding s' playMelodyNote_snd by (simp add: pulseBlackHole_eq sc)
  show "rightHandVolume s' = rightHandVolume s"
    unfolding s' playMelodyNote_snd by (simp add: pulseBlackHole_eq sc)
  show "timers s' = timers s"
    unfolding s' playMelodyNote_snd by (simp add: pulseBlackHole_eq sc)
  show "clock s' = clock s"
    unfolding s' playMelodyNote_snd by (simp add: pulseBlackHole_eq sc)
  show "isRightHandPresent s'"
    unfolding s' playMelodyNote_snd by (simp add: pulseBlackHole_eq sc)
  show "isLeftHandPresent s' = isLeftHandPresent s"
    unfolding s' playMelodyNote_snd by (simp add: pulseBlackHole_eq sc)
  show "canvasReady s' = canvasReady s"
    unfolding s' playMelodyNote_snd by (simp add: pulseBlackHole_eq sc)
  show "blackHole s' = (if \<not> rightHandIsPlaying s then
            (if fails (MelodyAttack nv 0 (8 / 10)) then blackHole s
             else map_option (pulse 1) (blackHole s))
          else if strict_neq (Some nv) (lastMelodyNote s)
               \<and> \<not> fails (MelodyRelease (Some (2 / 100)))
               \<and> \<not> fails (MelodyAttack nv (7 / 100) (7 / 10))
          then map_option (pulse (8 / 10)) (blackHole s) else blackHole s)"
    unfolding s' playMelodyNote_snd by (simp add: pulseBlackHole_eq sc)
qed

lemma harmony_record_effect:
  assumes running: "audioStarted s" "reverb s" "harmonySynth s"
    and hand: "8 < length lm" "landmark_at lm 0 = Some wrist"
    and ch: "chordAtPosition (chordPosition (py wrist)) s = Inr c"
    and wet: "wet = mapPinchToReverb (calculateDistance (landmark_at lm 4) (landmark_at lm 8))"
    and gain: "gain = mapFingerToVolume (calculateDistance (landmark_at lm 12) (landmark_at lm 4))"
    and after: "s' = snd (processLeftHand fails lm s)"
  shows "engine_log s' = engine_log s
           @ accepted fails [ReverbSetWet wet]
           @ accepted fails
               (if rightHandVolume s \<noteq> gain then [HarmonySetVolume (gain * (6 / 10))] else [])
           @ accepted fails
               (if \<not> leftHandIsPlaying s then [HarmonyAttack (chord_notes c) 0 (6 / 10)]
                else if chordChanged c s then [HarmonyReleaseAll (Some (- (5 / 1000)))]
                else [])"
    and "rightHandVolume s' = gain"
    and "leftHandIsPlaying s'
           = (leftHandIsPlaying s \<or> \<not> fails (HarmonyAttack (chord_notes c) 0 (6 / 10)))"
    and "timers s' = timers s
           @ (if leftHandIsPlaying s \<and> chordChanged c s
                 \<and> \<not> fails (HarmonyReleaseAll (Some (- (5 / 1000))))
              then [(clock s + 150, RebuildHarmony c)] else [])"
    and "lastChord s' = (if \<not> leftHandIsPlaying s
                            \<and> \<not> fails (HarmonyAttack (chord_notes c) 0 (6 / 10))
                         then Some c else lastChord s)"
    and "rightHandIsPlaying s' = rightHandIsPlaying s"
    and "lastMelodyNote s' = lastMelodyNote s"
    and "currentMelodyNote s' = currentMelodyNote s"
    and "leftHandVolume s' = leftHandVolume s"
    and "clock s' = clock s"
    and "isLeftHandPresent s'"
    and "isRightHandPresent s' = isRightHandPresent s"
    and "canvasReady s' = canvasReady s"
proof -
  define sc where "sc = (snd (setVolume fails ''left'' gain
      (snd (setReverb fails ''left'' wet (s\<lparr>isLeftHandPresent := True\<rparr>)))))
      \<lparr>lastLeftHandY := py wrist\<rparr>"
  have s': "s' = snd (playChord fails c sc)"
    unfolding after sc_def wet gain using hand ch by (rule processLeftHand_snd)
  have w: "max 0 (min wet 1) = wet" unfolding wet by (rule clamp_mapPinchToReverb)
  have g: "max 0 (min gain 1) = gain" unfolding gain by (rule clamp_mapFingerToVolume)
  have sc: "audioStarted sc" "harmonySynth sc"
    "leftHandIsPlaying sc = leftHandIsPlaying s" "lastChord sc = lastChord s"
    "engine_log sc = engine_log s @ accepted fails [ReverbSetWet wet]
       @ accepted fails
           (if rightHandVolume s \<noteq> gain then [HarmonySetVolume (gain * (6 / 10))] else [])"
    "rightHandVolume sc = gain" "rightHandIsPlaying sc = rightHandIsPlaying s"
    "lastMelodyNote sc = lastMelodyNote s" "currentMelodyNote sc = currentMelodyNote s"
    "leftHandVolume sc = leftHandVolume s" "timers sc = timers s" "clock sc = clock s"
    "isLeftHandPresent sc" "isRightHandPresent sc = isRightHandPresent s"
    "canvasReady sc = canvasReady s"
    unfolding sc_def using running
    by (simp_all add: setVolume_left_snd setReverb_snd w g accepted_simps)
  have changed: "chordChanged c sc = chordChanged c s"
    by (simp add: chordChanged_def sc)
  show "engine_log s' = engine_log s
           @ accepted fails [ReverbSetWet wet]
           @ accepted fails
               (if rightHandVolume s \<noteq> gain then [HarmonySetVolume (gain * (6 / 10))] else [])
           @ accepted fails
               (if \<not> leftHandIsPlaying s then [HarmonyAttack (chord_notes c) 0 (6 / 10)]
                else if chordChanged c s then [HarmonyReleaseAll (Some (- (5 / 1000)))]
                else [])"
    unfolding s' playChord_snd by (simp add: pulseBlackHole_eq sc changed accepted_simps)
  show "rightHandVolume s' = gain"
    unfolding s' playChord_snd by (simp add: pulseBlackHole_eq sc changed)
  show "leftHandIsPlaying s'
           = (leftHandIsPlaying s \<or> \<not> fails (HarmonyAttack (chord_notes c) 0 (6 / 10)))"
    unfolding s' playChord_snd by (simp add: pulseBlackHole_eq sc changed)
  show "timers s' = timers s
           @ (if leftHandIsPlaying s \<and> chordChanged c s
                 \<and> \<not> fails (HarmonyReleaseAll (Some (- (5 / 1000))))
              then [(clock s + 150, RebuildHarmony c)] else [])"
    unfolding s' playChord_snd by (simp add: pulseBlackHole_eq sc changed)
  show "lastChord s' = (if \<not> leftHandIsPlaying s
                            \<and> \<not> fails (HarmonyAttack (chord_notes c) 0 (6 / 10))
                         then Some c else lastChord s)"
    unfolding s' playChord_snd by (simp add: pulseBlackHole_eq sc changed)
  show "rightHandIsPlaying s' = rightHandIsPlaying s"
    unfolding s' playChord_snd by (simp add: pulseBlackHole_eq sc changed)
  show "lastMelodyNote s' = lastMelodyNote s"
    unfolding s' playChord_snd by (simp add: pulseBlackHole_eq sc changed)
  show "currentMelodyNote s' = currentMelodyNote s"
    unfolding s' playChord_snd by (simp add: pulseBlackHole_eq sc changed)
  show "leftHandVolume s' = leftHandVolume s"
    unfolding s' playChord_snd by (simp add: pulseBlackHole_eq sc changed)
  show "clock s' = clock s"
    unfolding s' playChord_snd by (simp add: pulseBlackHole_eq sc changed)
  show "isLeftHandPresent s'"
    unfolding s' playChord_snd by (simp add: pulseBlackHole_eq sc changed)
  show "isRightHandPresent s' = isRightHandPresent s"
    unfolding s' playChord_snd by (simp add: pulseBlackHole_eq sc changed)
  show "canvasReady s' = canvasReady s"
    unfolding s' playChord_snd by (simp add: pulseBlackHole_eq sc changed)
qed

text \<open>A frame with one hand: the frame handler ends in the state its hand handler leaves.\<close>

lemma frame_one_hand:
  assumes "canvasReady s" "multiHandLandmarks r = [lm]" "multiHandedness r = [Some label]"
    and "h = (if label \<noteq> ''Left'' then processLeftHand fails lm else processRightHand fails lm)"
    and "fst (h (frame_start r s)) = Inr ()"
    and "isLeftHandPresent (snd (h (frame_start r s))) \<or> \<not> isLeftHandPresent s"
    and "isRightHandPresent (snd (h (frame_start r s))) \<or> \<not> isRightHandPresent s"
  shows "snd (onHandResults fails r s) = snd (h (frame_start r s))"
proof (cases "h (frame_start r s)")
  case (Pair res s1)
  then have res: "res = Inr ()" using assms(5) by simp
  have recs: "frame_records r = [(lm, Some label)]"
    by (simp add: frame_records_def handedness_at_def assms(2,3))
  have loop: "process_hands fails (frame_records r) (frame_start r s) = (Inr (), s1)"
    unfolding recs using Pair res assms(4) by (simp add: Let_def and_then_def pure_step_def)
  have flags: "isLeftHandPresent s1 \<or> \<not> isLeftHandPresent s"
    "isRightHandPresent s1 \<or> \<not> isRightHandPresent s"
    using assms(6,7) Pair by simp_all
  have "snd (onHandResults fails r s) = s1"
    unfolding onHandResults_def try_catch_eq using assms(1) flags
    by (auto simp add: Let_def and_then_def loop assms(2))
  then show ?thesis using Pair by simp
qed

lemma calculateDistance_eq:
  assumes "0 \<le> d"
    "(px p1 - px p2) * (px p1 - px p2) + (py p1 - py p2) * (py p1 - py p2)
      + ((case pz p1 of None \<Rightarrow> 0 | Some z \<Rightarrow> z) - (case pz p2 of None \<Rightarrow> 0 | Some z \<Rightarrow> z))
        * ((case pz p1 of None \<Rightarrow> 0 | Some z \<Rightarrow> z) - (case pz p2 of None \<Rightarrow> 0 | Some z \<Rightarrow> z))
     = d * d"
  shows "calculateDistance (Some p1) (Some p2) = Fin d"
proof -
  have "sqrt (d * d) = d" using assms(1) by simp
  then show ?thesis unfolding calculateDistance_def Let_def by (simp only: assms(2) prod.case option.case)
qed

lemma sample_pinch: "calculateDistance (Some sample_thumb) (Some sample_index) = Fin (1 / 5)"
  by (rule calculateDistance_eq) (simp_all add: sample_thumb_def sample_index_def)

lemma sample_spread: "calculateDistance (Some sample_middle) (Some sample_thumb) = Fin (3 / 20)"
  by (rule calculateDistance_eq) (simp_all add: sample_thumb_def sample_middle_def)

lemma sample_wet: "mapPinchToReverb (Fin (1 / 5)) = 1"
  by (simp add: mapPinchToReverb_def MIN_PINCH_DIST_def MAX_PINCH_DIST_def)

lemma sample_gain: "mapFingerToVolume (Fin (3 / 20)) = 1"
  by (simp add: mapFingerToVolume_def MIN_PINCH_DIST_def MAX_PINCH_DIST_def)

lemma sample_hand_points:
  "8 < length (sample_hand y)"
  "landmark_at (sample_hand y) 0 = Some \<lparr>px = 1 / 2, py = y, pz = Some 0\<rparr>"
  "landmark_at (sample_hand y) 4 = Some sample_thumb"
  "landmark_at (sample_hand y) 8 = Some sample_index"
  "landmark_at (sample_hand y) 12 = Some sample_middle"
  by (simp_all add: sample_hand_def landmark_at_def)

lemma sample_hand_values:
  "mapPinchToReverb (calculateDistance (landmark_at (sample_hand y) 4)
      (landmark_at (sample_hand y) 8)) = 1"
  "mapFingerToVolume (calculateDistance (landmark_at (sample_hand y) 12)
      (landmark_at (sample_hand y) 4)) = 1"
  by (simp_all only: sample_hand_points sample_pinch sample_spread sample_wet sample_gain)

lemma sample_frame_fields:
  "multiHandLandmarks (sample_frame label y) = [sample_hand y]"
  "multiHandedness (sample_frame label y) = [Some label]"
  by (simp_all add: sample_frame_def)

lemma sample_pair_records:
  "frame_records sample_pair
     = [(sample_hand 1, Some ''Right''), (sample_hand (1 / 2), Some ''Left'')]"
  by (simp add: frame_records_def sample_pair_def handedness_at_def upt_rec)

lemma frame_start_fields:
  "audioStarted (frame_start r s) = audioStarted s" "reverb (frame_start r s) = reverb s"
  "melodySynth (frame_start r s) = melodySynth s" "harmonySynth (frame_start r s) = harmonySynth s"
  "selectedScale (frame_start r s) = selectedScale s"
  "selectedRoot (frame_start r s) = selectedRoot s" "octave (frame_start r s) = octave s"
  "engine_log (frame_start r s) = engine_log s" "timers (frame_start r s) = timers s"
  "clock (frame_start r s) = clock s"
  "leftHandVolume (frame_start r s) = leftHandVolume s"
  "rightHandVolume (frame_start r s) = rightHandVolume s"
  "leftHandIsPlaying (frame_start r s) = leftHandIsPlaying s"
  "rightHandIsPlaying (frame_start r s) = rightHandIsPlaying s"
  "lastChord (frame_start r s) = lastChord s" "lastMelodyNote (frame_start r s) = lastMelodyNote s"
  "canvasReady (frame_start r s) = canvasReady s"
  "\<not> isLeftHandPresent (frame_start r s)" "\<not> isRightHandPresent (frame_start r s)"
  by (simp_all add: frame_start_def)

text \<open>A frame holding the sample hand under a label other than \<open>Left\<close>.\<close>

lemma sample_frame_other:
  assumes label: "label \<noteq> ''Left''"
    and ready: "canvasReady s" "\<not> isRightHandPresent s" "audioStarted s" "reverb s" "harmonySynth s"
    and ch: "chordAtPosition (chordPosition y) s = Inr c"
    and after: "s' = snd (onHandResults reliable (sample_frame label y) s)"
  shows "engine_log s' = engine_log s @ [ReverbSetWet 1]
           @ (if rightHandVolume s \<noteq> 1 then [HarmonySetVolume (6 / 10)] else [])
           @ (if \<not> leftHandIsPlaying s then [HarmonyAttack (chord_notes c) 0 (6 / 10)]
              else if chordChanged c s then [HarmonyReleaseAll (Some (- (5 / 1000)))]
              else [])"
    and "timers s' = timers s
           @ (if leftHandIsPlaying s \<and> chordChanged c s
              then [(clock s + 150, RebuildHarmony c)] else [])"
    and "lastChord s' = (if \<not> leftHandIsPlaying s then Some c else lastChord s)"
    and "leftHandIsPlaying s'" "rightHandVolume s' = 1" "leftHandVolume s' = leftHandVolume s"
    and "clock s' = clock s" "canvasReady s'" "\<not> isRightHandPresent s'"
    and "settings s' = settings s"
proof -
  define r where "r = sample_frame label y"
  define s0 where "s0 = frame_start r s"
  define wrist where "wrist = \<lparr>px = 1 / 2, py = y, pz = Some 0\<rparr>"
  have hand: "8 < length (sample_hand y)" "landmark_at (sample_hand y) 0 = Some wrist"
    unfolding wrist_def by (rule sample_hand_points)+
  have s0: "audioStarted s0" "reverb s0" "harmonySynth s0"
    unfolding s0_def using ready by (simp_all add: frame_start_fields)
  have "chordAtPosition (chordPosition y) s0 = chordAtPosition (chordPosition y) s"
    unfolding s0_def by (rule chordAtPosition_cong) (simp_all add: frame_start_fields)
  then have ch0: "chordAtPosition (chordPosition (py wrist)) s0 = Inr c"
    by (simp add: ch wrist_def)
  have changed: "chordChanged c s0 = chordChanged c s"
    by (simp add: chordChanged_def s0_def frame_start_fields)
  define s1 where "s1 = snd (processLeftHand reliable (sample_hand y) s0)"
  note effect = harmony_record_effect [OF s0 hand ch0 sample_hand_values(1) [symmetric]
      sample_hand_values(2) [symmetric] s1_def]
  have returned: "fst (processLeftHand reliable (sample_hand y) s0) = Inr ()"
    using hand ch0 by (rule processLeftHand_fst) (simp_all add: sample_hand_points)
  have "snd (onHandResults reliable r s) = snd (processLeftHand reliable (sample_hand y) (frame_start r s))"
  proof (rule frame_one_hand [where label = label and lm = "sample_hand y"])
    show "canvasReady s" by (rule ready(1))
    show "multiHandLandmarks r = [sample_hand y]" "multiHandedness r = [Some label]"
      unfolding r_def by (rule sample_frame_fields)+
    show "processLeftHand reliable (sample_hand y)
        = (if label \<noteq> ''Left'' then processLeftHand reliable (sample_hand y)
           else processRightHand reliable (sample_hand y))"
      using label by simp
    show "fst (processLeftHand reliable (sample_hand y) (frame_start r s)) = Inr ()"
      using returned unfolding s0_def .
    show "isLeftHandPresent (snd (processLeftHand reliable (sample_hand y) (frame_start r s)))
        \<or> \<not> isLeftHandPresent s"
      using effect(11) unfolding s1_def s0_def by simp
    show "isRightHandPresent (snd (processLeftHand reliable (sample_hand y) (frame_start r s)))
        \<or> \<not> isRightHandPresent s"
      using ready(2) by simp
  qed
  then have s': "s' = s1"
    unfolding after s1_def s0_def r_def .
  have fields0: "engine_log s0 = engine_log s" "rightHandVolume s0 = rightHandVolume s"
    "leftHandIsPlaying s0 = leftHandIsPlaying s" "timers s0 = timers s" "clock s0 = clock s"
    "lastChord s0 = lastChord s" "leftHandVolume s0 = leftHandVolume s"
    "canvasReady s0 = canvasReady s" "\<not> isRightHandPresent s0"
    unfolding s0_def by (simp_all add: frame_start_fields)
  show "engine_log s' = engine_log s @ [ReverbSetWet 1]
           @ (if rightHandVolume s \<noteq> 1 then [HarmonySetVolume (6 / 10)] else [])
           @ (if \<not> leftHandIsPlaying s then [HarmonyAttack (chord_notes c) 0 (6 / 10)]
              else if chordChanged c s then [HarmonyReleaseAll (Some (- (5 / 1000)))]
              else [])"
    unfolding s' effect(1) by (simp add: fields0 changed accepted_simps reliable_ok)
  show "timers s' = timers s
           @ (if leftHandIsPlaying s \<and> chordChanged c s
              then [(clock s + 150, RebuildHarmony c)] else [])"
    unfolding s' effect(4) by (simp add: fields0 changed reliable_ok)
  show "lastChord s' = (if \<not> leftHandIsPlaying s then Some c else lastChord s)"
    unfolding s' effect(5) by (simp add: fields0 reliable_ok)
  show "leftHandIsPlaying s'" unfolding s' effect(3) by (simp add: reliable_ok)
  show "rightHandVolume s' = 1" unfolding s' by (rule effect(2))
  show "leftHandVolume s' = leftHandVolume s" unfolding s' effect(9) by (rule fields0)
  show "clock s' = clock s" unfolding s' effect(10) by (rule fields0)
  show "canvasReady s'" unfolding s' effect(13) using ready(1) by (simp add: fields0)
  show "\<not> isRightHandPresent s'" unfolding s' effect(12) by (rule fields0)
  have "settings s1 = settings s0"
    unfolding s1_def by (rule settings_processLeftHand)
  then show "settings s' = settings s"
    unfolding s' s0_def by (simp only: settings_frame_start)
qed

text \<open>A frame holding the sample hand under the label \<open>Left\<close>.\<close>

lemma sample_frame_Left:
  assumes ready: "canvasReady s" "\<not> isLeftHandPresent s" "audioStarted s" "reverb s" "melodySynth s"
    and nt: "noteAtPosition (melodyPosition y) (selectedScale s) s = Inr nv"
    and after: "s' = snd (onHandResults reliable (sample_frame ''Left'' y) s)"
  shows "engine_log s' = engine_log s @ [ReverbSetWet 1]
           @ (if leftHandVolume s \<noteq> 1 then [MelodySetVolume 1] else [])
           @ (if \<not> rightHandIsPlaying s then [MelodyAttack nv 0 (8 / 10)]
              else if strict_neq (Some nv) (lastMelodyNote s)
              then [MelodyRelease (Some (2 / 100)), MelodyAttack nv (7 / 100) (7 / 10)]
              else [])"
    and "rightHandIsPlaying s'" "leftHandIsPlaying s' = leftHandIsPlaying s"
    and "timers s' = timers s"
proof -
  define r where "r = sample_frame ''Left'' y"
  define s0 where "s0 = frame_start r s"
  define wrist where "wrist = \<lparr>px = 1 / 2, py = y, pz = Some 0\<rparr>"
  have hand: "8 < length (sample_hand y)" "landmark_at (sample_hand y) 0 = Some wrist"
    unfolding wrist_def by (rule sample_hand_points)+
  have s0: "audioStarted s0" "reverb s0" "melodySynth s0"
    unfolding s0_def using ready by (simp_all add: frame_start_fields)
  have "noteAtPosition (melodyPosition y) (selectedScale s) s0
      = noteAtPosition (melodyPosition y) (selectedScale s) s"
    unfolding s0_def by (rule noteAtPosition_cong) (simp_all add: frame_start_fields)
  then have nt0: "noteAtPosition (melodyPosition (py wrist)) (selectedScale s0) s0 = Inr nv"
    by (simp add: nt wrist_def s0_def frame_start_fields)
  define s1 where "s1 = snd (processRightHand reliable (sample_hand y) s0)"
  note effect = melody_record_effect [OF s0 hand nt0 sample_hand_values(1) [symmetric]
      sample_hand_values(2) [symmetric] s1_def]
  have returned: "fst (processRightHand reliable (sample_hand y) s0) = Inr ()"
    using hand nt0 by (rule processRightHand_fst) (simp_all add: sample_hand_points)
  have "snd (onHandResults reliable r s) = snd (processRightHand reliable (sample_hand y) (frame_start r s))"
  proof (rule frame_one_hand [where label = "''Left''" and lm = "sample_hand y"])
    show "canvasReady s" by (rule ready(1))
    show "multiHandLandmarks r = [sample_hand y]" "multiHandedness r = [Some ''Left'']"
      unfolding r_def by (rule sample_frame_fields)+
    show "processRightHand reliable (sample_hand y)
        = (if ''Left'' \<noteq> ''Left'' then processLeftHand reliable (sample_hand y)
           else processRightHand reliable (sample_hand y))"
      by simp
    show "fst (processRightHand reliable (sample_hand y) (frame_start r s)) = Inr ()"
      using returned unfolding s0_def .
    show "isLeftHandPresent (snd (processRightHand reliable (sample_hand y) (frame_start r s)))
        \<or> \<not> isLeftHandPresent s"
      using ready(2) by simp
    show "isRightHandPresent (snd (processRightHand reliable (sample_hand y) (frame_start r s)))
        \<or> \<not> isRightHandPresent s"
      using effect(11) unfolding s1_def s0_def by simp
  qed
  then have s': "s' = s1"
    unfolding after s1_def s0_def r_def .
  have fields0: "engine_log s0 = engine_log s" "leftHandVolume s0 = leftHandVolume s"
    "rightHandIsPlaying s0 = rightHandIsPlaying s" "timers s0 = timers s"
    "lastMelodyNote s0 = lastMelodyNote s" "leftHandIsPlaying s0 = leftHandIsPlaying s"
    unfolding s0_def by (simp_all add: frame_start_fields)
  show "engine_log s' = engine_log s @ [ReverbSetWet 1]
           @ (if leftHandVolume s \<noteq> 1 then [MelodySetVolume 1] else [])
           @ (if \<not> rightHandIsPlaying s then [MelodyAttack nv 0 (8 / 10)]
              else if strict_neq (Some nv) (lastMelodyNote s)
              then [MelodyRelease (Some (2 / 100)), MelodyAttack nv (7 / 100) (7 / 10)]
              else [])"
    unfolding s' effect(1) by (simp add: fields0 accepted_simps reliable_ok)
  show "rightHandIsPlaying s'" unfolding s' effect(4) by (simp add: reliable_ok)
  show "leftHandIsPlaying s' = leftHandIsPlaying s" unfolding s' effect(5) by (rule fields0)
  show "timers s' = timers s" unfolding s' effect(9) by (rule fields0)
qed

text \<open>The two timers of a chord change, run one after the other.\<close>

lemma rebuild_then_attack:
  assumes "timers s = [(t, RebuildHarmony c)]"
    and "s' = fire_next reliable (fire_next reliable s)"
  shows "engine_log s' = engine_log s
           @ [HarmonyDispose, HarmonyCreate, HarmonySetVolume (leftHandVolume s * (6 / 10)),
              HarmonyAttack (chord_notes c) (5 / 100) (6 / 10)]"
    and "timers s' = []" "lastChord s' = Some c" "leftHandIsPlaying s'"
    and "rightHandVolume s' = rightHandVolume s" "canvasReady s' = canvasReady s"
    and "isRightHandPresent s' = isRightHandPresent s" "settings s' = settings s"
proof -
  define s1 where "s1 = s\<lparr>clock := max (clock s) t, timers := []\<rparr>"
  define s2 where "s2 = s1\<lparr>engine_log := engine_log s1
        @ [HarmonyDispose, HarmonyCreate, HarmonySetVolume (leftHandVolume s1 * (6 / 10))],
        timers := timers s1 @ [(clock s1 + 50, AttackChord c)]\<rparr>"
  define s3 where "s3 = s2\<lparr>clock := max (clock s2) (clock s1 + 50), timers := []\<rparr>"
  have "fire_next reliable s = snd (run_task reliable (RebuildHarmony c) s1)"
    unfolding s1_def using assms(1) by (rule fire_next_single)
  then have one: "fire_next reliable s = s2"
    unfolding s2_def by (simp add: run_RebuildHarmony del: run_task.simps)
  have "timers s2 = [(clock s1 + 50, AttackChord c)]"
    unfolding s2_def s1_def by simp
  then have "fire_next reliable s2 = snd (run_task reliable (AttackChord c) s3)"
    unfolding s3_def by (rule fire_next_single)
  then have two: "s' = pulseBlackHole (changePulse c)
      (s3\<lparr>engine_log := engine_log s3 @ [HarmonyAttack (chord_notes c) (5 / 100) (6 / 10)],
         currentChord := Some c, lastChord := Some c, leftHandIsPlaying := True\<rparr>)"
    unfolding assms(2) one by (simp add: run_AttackChord del: run_task.simps)
  show "engine_log s' = engine_log s
           @ [HarmonyDispose, HarmonyCreate, HarmonySetVolume (leftHandVolume s * (6 / 10)),
              HarmonyAttack (chord_notes c) (5 / 100) (6 / 10)]"
    unfolding two pulseBlackHole_eq s3_def s2_def s1_def by simp
  show "timers s' = []" unfolding two pulseBlackHole_eq s3_def by simp
  show "lastChord s' = Some c" unfolding two pulseBlackHole_eq by simp
  show "leftHandIsPlaying s'" unfolding two pulseBlackHole_eq by simp
  show "rightHandVolume s' = rightHandVolume s"
    unfolding two pulseBlackHole_eq s3_def s2_def s1_def by simp
  show "canvasReady s' = canvasReady s"
    unfolding two pulseBlackHole_eq s3_def s2_def s1_def by simp
  show "isRightHandPresent s' = isRightHandPresent s"
    unfolding two pulseBlackHole_eq s3_def s2_def s1_def by simp
  show "settings s' = settings s"
    unfolding two pulseBlackHole_eq s3_def s2_def s1_def by (simp add: settings_def)
qed

lemma chordChanged_same: "lastChord s = Some c \<Longrightarrow> \<not> chordChanged c s"
  by (simp add: chordChanged_def)

lemma ready_settings:
  "settings s = settings ready_state \<Longrightarrow>
     audioStarted s \<and> reverb s \<and> melodySynth s \<and> harmonySynth s
     \<and> selectedScale s = ''major'' \<and> selectedRoot s = ''C'' \<and> octave s = 4"
  by (simp add: settings_def ready_fields)

text \<open>
  Claim C4, as amended. In every frame, for each hand record that the loop of
  \<open>onHandResults\<close> reaches (the records before it returned and left the state \<open>sk\<close>),
  with audio started, the reverb and both synths present, and the record holding more
  than 8 landmarks and a wrist point, on any engine: a record labelled \<open>Left\<close> drives
  the melody voice. Its wrist height selects the note \<open>nv\<close> given to \<open>playMelodyNote\<close>
  (an attack from the idle voice, a release and an attack on a changed note, nothing
  otherwise), and its spread gain is stored in \<open>leftHandVolume\<close> and written to the
  melody synth when it differs from the stored value; the harmony voice, its stored
  gain and the timers stay as they are. A record with any other label drives the
  harmony voice: its wrist height selects the chord \<open>c\<close> given to \<open>playChord\<close> (an
  attack from the idle voice, a release and a rebuild timer on a changed chord, nothing
  otherwise), and its spread gain is stored in \<open>rightHandVolume\<close> and written, times
  0.6, to the harmony synth when it differs from the stored value; the melody voice and
  its stored gain stay as they are. Both write the shared reverb.
\<close>

theorem C4_label_Left_drives_melody:
  assumes running: "audioStarted s" "reverb s" "melodySynth s" "harmonySynth s"
    and reached: "k < length (frame_records r)" "frame_records r ! k = (lm, Some label)"
      "process_hands fails (take k (frame_records r)) (frame_start r s) = (Inr (), sk)"
    and hand: "8 < length lm" "landmark_at lm 0 = Some wrist"
    and wet: "wet = mapPinchToReverb (calculateDistance (landmark_at lm 4) (landmark_at lm 8))"
    and gain: "gain = mapFingerToVolume (calculateDistance (landmark_at lm 12) (landmark_at lm 4))"
    and after: "s' = snd (process_hands fails (take (Suc k) (frame_records r)) (frame_start r s))"
  shows "(label = ''Left''
            \<and> noteAtPosition (melodyPosition (py wrist)) (selectedScale s) s = Inr nv \<longrightarrow>
          engine_log s' = engine_log sk
            @ accepted fails [ReverbSetWet wet]
            @ accepted fails (if leftHandVolume sk \<noteq> gain then [MelodySetVolume gain] else [])
            @ accepted fails
                (if \<not> rightHandIsPlaying sk then [MelodyAttack nv 0 (8 / 10)]
                 else if strict_neq (Some nv) (lastMelodyNote sk)
                 then [MelodyRelease (Some (2 / 100)), MelodyAttack nv (7 / 100) (7 / 10)]
                 else [])
          \<and> leftHandVolume s' = gain \<and> lastMelodyNote s' = Some nv
          \<and> rightHandIsPlaying s'
              = (rightHandIsPlaying sk \<or> \<not> fails (MelodyAttack nv 0 (8 / 10)))
          \<and> leftHandIsPlaying s' = leftHandIsPlaying sk \<and> lastChord s' = lastChord sk
          \<and> rightHandVolume s' = rightHandVolume sk \<and> timers s' = timers sk)
       \<and> (label \<noteq> ''Left''
            \<and> chordAtPosition (chordPosition (py wrist)) s = Inr c \<longrightarrow>
          engine_log s' = engine_log sk
            @ accepted fails [ReverbSetWet wet]
            @ accepted fails
                (if rightHandVolume sk \<noteq> gain then [HarmonySetVolume (gain * (6 / 10))] else [])
            @ accepted fails
                (if \<not> leftHandIsPlaying sk then [HarmonyAttack (chord_notes c) 0 (6 / 10)]
                 else if chordChanged c sk then [HarmonyReleaseAll (Some (- (5 / 1000)))]
                 else [])
          \<and> rightHandVolume s' = gain
          \<and> leftHandIsPlaying s'
              = (leftHandIsPlaying sk \<or> \<not> fails (HarmonyAttack (chord_notes c) 0 (6 / 10)))
          \<and> timers s' = timers sk
              @ (if leftHandIsPlaying sk \<and> chordChanged c sk
                    \<and> \<not> fails (HarmonyReleaseAll (Some (- (5 / 1000))))
                 then [(clock sk + 150, RebuildHarmony c)] else [])
          \<and> rightHandIsPlaying s' = rightHandIsPlaying sk
          \<and> lastMelodyNote s' = lastMelodyNote sk
          \<and> leftHandVolume s' = leftHandVolume sk)"
proof -
  have "settings sk = settings (frame_start r s)"
    using settings_process_hands [of fails "take k (frame_records r)" "frame_start r s"]
    by (simp add: reached(3))
  then have same: "settings sk = settings s"
    by (simp only: settings_frame_start)
  then have sk: "audioStarted sk" "reverb sk" "melodySynth sk" "harmonySynth sk"
    "selectedScale sk = selectedScale s" "selectedRoot sk = selectedRoot s" "octave sk = octave s"
    using running by (simp_all add: settings_def)
  have handler: "s' = snd ((if label \<noteq> ''Left'' then processLeftHand fails lm
                            else processRightHand fails lm) sk)"
    unfolding after using reached by (rule process_hands_reached)
  have melody: ?thesis
    if label: "label = ''Left''"
      and nt: "noteAtPosition (melodyPosition (py wrist)) (selectedScale s) s = Inr nv"
  proof -
    have "noteAtPosition (melodyPosition (py wrist)) (selectedScale s) sk
        = noteAtPosition (melodyPosition (py wrist)) (selectedScale s) s"
      by (rule noteAtPosition_cong) (simp_all add: sk)
    then have nt': "noteAtPosition (melodyPosition (py wrist)) (selectedScale sk) sk = Inr nv"
      by (simp add: sk nt)
    have run: "s' = snd (processRightHand fails lm sk)"
      using handler label by simp
    note effect = melody_record_effect [OF sk(1,2,3) hand nt' wet gain run]
    show ?thesis using label effect(1-5,7-9) by simp
  qed
  have harmony: ?thesis
    if label: "label \<noteq> ''Left''"
      and ch: "chordAtPosition (chordPosition (py wrist)) s = Inr c"
  proof -
    have "chordAtPosition (chordPosition (py wrist)) sk
        = chordAtPosition (chordPosition (py wrist)) s"
      by (rule chordAtPosition_cong) (simp_all add: sk)
    then have ch': "chordAtPosition (chordPosition (py wrist)) sk = Inr c"
      by (simp add: ch)
    have run: "s' = snd (processLeftHand fails lm sk)"
      using handler label by simp
    note effect = harmony_record_effect [OF sk(1,2,4) hand ch' wet gain run]
    show ?thesis using label effect(1-4,6,7,9) by simp
  qed
  show ?thesis
  proof (cases "label = ''Left''")
    case True
    then show ?thesis using melody by blast
  next
    case False
    then show ?thesis using harmony by blast
  qed
qed

text \<open>
  Claim C4 as stated fails. A frame whose only hand is labelled \<open>Left\<close> issues melody
  calls and no harmony call. And the gain of the harmony voice does not follow the
  spread of the hand that drives it through a chord change: a hand labelled \<open>Right\<close>
  is held at full spread (gain 1, written as 0.6) and moves from the bottom to height
  0.1; the rebuilt harmony synth gets its gain from \<open>leftHandVolume\<close>, where the melody
  gain is stored (0.5, written as 0.3), and the next frame of the same hand does not
  write the gain again.
\<close>

theorem C4_left_label_plays_melody_counterexample:
  "engine_log (snd (onHandResults reliable (sample_frame ''Left'' 1) ready_state))
     = [ReverbSetWet 1, MelodySetVolume 1, MelodyAttack (Str ''C4'') 0 (8 / 10)]
   \<and> engine_log (snd (onHandResults reliable (sample_frame ''Right'' (1 / 10))
        (fire_next reliable (fire_next reliable
          (snd (onHandResults reliable (sample_frame ''Right'' (1 / 10))
            (snd (onHandResults reliable (sample_frame ''Right'' 1) ready_state))))))))
     = [ReverbSetWet 1, HarmonySetVolume (6 / 10),
        HarmonyAttack [Str ''C3'', Str ''E3'', Str ''G3''] 0 (6 / 10),
        ReverbSetWet 1, HarmonyReleaseAll (Some (- (5 / 1000))),
        HarmonyDispose, HarmonyCreate, HarmonySetVolume (3 / 10),
        HarmonyAttack [Str ''B3'', Str ''D4'', Str ''F4''] (5 / 100) (6 / 10),
        ReverbSetWet 1]"
proof -
  have nt: "noteAtPosition (melodyPosition 1) (selectedScale ready_state) ready_state
      = Inr (Str ''C4'')"
    by (simp add: melodyPosition_top ready_fields C_major_position_0)
  have melody: "engine_log (snd (onHandResults reliable (sample_frame ''Left'' 1) ready_state))
     = [ReverbSetWet 1, MelodySetVolume 1, MelodyAttack (Str ''C4'') 0 (8 / 10)]"
    using sample_frame_Left(1) [OF ready_fields(5) ready_fields(19) ready_fields(1,2,3) nt refl]
    by (simp add: ready_fields)
  define a1 where "a1 = snd (onHandResults reliable (sample_frame ''Right'' 1) ready_state)"
  define a2 where "a2 = snd (onHandResults reliable (sample_frame ''Right'' (1 / 10)) a1)"
  define a4 where "a4 = fire_next reliable (fire_next reliable a2)"
  define a5 where "a5 = snd (onHandResults reliable (sample_frame ''Right'' (1 / 10)) a4)"
  have other: "''Right'' \<noteq> ''Left''" by simp
  have c1: "chordAtPosition (chordPosition 1) ready_state = Inr C_major_chord"
    by (simp add: chordPosition_top C_major_chord_0 ready_fields)
  note f1 = sample_frame_other [OF other ready_fields(5) ready_fields(20) ready_fields(1,2,4) c1 a1_def]
  have log1: "engine_log a1 = [ReverbSetWet 1, HarmonySetVolume (6 / 10),
      HarmonyAttack [Str ''C3'', Str ''E3'', Str ''G3''] 0 (6 / 10)]"
    unfolding f1(1) by (simp add: ready_fields C_major_chord_def)
  have a1: "timers a1 = []" "lastChord a1 = Some C_major_chord" "leftHandVolume a1 = 1 / 2"
    "clock a1 = 0"
    unfolding f1(2,3,6,7) by (simp_all add: ready_fields)
  have r1: "audioStarted a1" "reverb a1" "harmonySynth a1"
    "selectedScale a1 = ''major''" "selectedRoot a1 = ''C''" "octave a1 = 4"
    using ready_settings [OF f1(10)] by simp_all
  have c2: "chordAtPosition (chordPosition (1 / 10)) a1 = Inr B_dim_chord"
    by (simp add: chordPosition_tenth C_major_chord_6 r1)
  have changed: "chordChanged B_dim_chord a1"
    by (simp add: chordChanged_def a1 B_dim_changed)
  note f2 = sample_frame_other [OF other f1(8) f1(9) r1(1,2,3) c2 a2_def]
  have log2: "engine_log a2 = engine_log a1
      @ [ReverbSetWet 1, HarmonyReleaseAll (Some (- (5 / 1000)))]"
    unfolding f2(1) by (simp add: f1(4,5) changed)
  have a2: "timers a2 = [(150, RebuildHarmony B_dim_chord)]" "leftHandVolume a2 = 1 / 2"
    unfolding f2(2,6) by (simp_all add: f1(4) changed a1)
  note f4 = rebuild_then_attack [OF a2(1) a4_def]
  have log4: "engine_log a4 = engine_log a2
      @ [HarmonyDispose, HarmonyCreate, HarmonySetVolume (3 / 10),
         HarmonyAttack [Str ''B3'', Str ''D4'', Str ''F4''] (5 / 100) (6 / 10)]"
    unfolding f4(1) by (simp add: a2 B_dim_chord_def)
  have ready4: "canvasReady a4" "\<not> isRightHandPresent a4"
    unfolding f4(6,7) by (rule f2(8) f2(9))+
  have "settings a4 = settings ready_state"
    unfolding f4(8) f2(10) by (rule f1(10))
  from ready_settings [OF this]
  have r4: "audioStarted a4" "reverb a4" "harmonySynth a4"
    "selectedScale a4 = ''major''" "selectedRoot a4 = ''C''" "octave a4 = 4"
    by simp_all
  have c4: "chordAtPosition (chordPosition (1 / 10)) a4 = Inr B_dim_chord"
    by (simp add: chordPosition_tenth C_major_chord_6 r4)
  have same: "\<not> chordChanged B_dim_chord a4"
    using f4(3) by (rule chordChanged_same)
  have v4: "rightHandVolume a4 = 1"
    unfolding f4(5) by (rule f2(5))
  note f5 = sample_frame_other [OF other ready4 r4(1,2,3) c4 a5_def]
  have log5: "engine_log a5 = engine_log a4 @ [ReverbSetWet 1]"
    unfolding f5(1) by (simp add: v4 f4(4) same)
  have "engine_log a5
     = [ReverbSetWet 1, HarmonySetVolume (6 / 10),
        HarmonyAttack [Str ''C3'', Str ''E3'', Str ''G3''] 0 (6 / 10),
        ReverbSetWet 1, HarmonyReleaseAll (Some (- (5 / 1000))),
        HarmonyDispose, HarmonyCreate, HarmonySetVolume (3 / 10),
        HarmonyAttack [Str ''B3'', Str ''D4'', Str ''F4''] (5 / 100) (6 / 10),
        ReverbSetWet 1]"
    unfolding log5 log4 log2 log1 by simp
  then show ?thesis
    unfolding a5_def a4_def a2_def a1_def using melody by simp
qed

theorem C4_label_Left_drives_melody_witness:
  "engine_log (snd (process_hands reliable (take (Suc 0) (frame_records sample_pair))
       (frame_start sample_pair ready_state)))
     = [ReverbSetWet 1, HarmonySetVolume (6 / 10),
        HarmonyAttack [Str ''C3'', Str ''E3'', Str ''G3''] 0 (6 / 10)]
   \<and> engine_log (snd (process_hands reliable (take (Suc (Suc 0)) (frame_records sample_pair))
       (frame_start sample_pair ready_state)))
     = [ReverbSetWet 1, HarmonySetVolume (6 / 10),
        HarmonyAttack [Str ''C3'', Str ''E3'', Str ''G3''] 0 (6 / 10),
        ReverbSetWet 1, MelodySetVolume 1, MelodyAttack (Str ''C5'') 0 (8 / 10)]"
proof -
  define s0 where "s0 = frame_start sample_pair ready_state"
  define sa where "sa = snd (process_hands reliable (take (Suc 0) (frame_records sample_pair))
      (frame_start sample_pair ready_state))"
  define sb where "sb = snd (process_hands reliable (take (Suc (Suc 0)) (frame_records sample_pair))
      (frame_start sample_pair ready_state))"
  have s0: "engine_log s0 = []" "rightHandVolume s0 = 1 / 2" "leftHandVolume s0 = 1 / 2"
    "\<not> leftHandIsPlaying s0" "\<not> rightHandIsPlaying s0" "lastMelodyNote s0 = None"
    "selectedScale s0 = ''major''" "selectedRoot s0 = ''C''" "octave s0 = 4"
    unfolding s0_def by (simp_all add: frame_start_fields ready_fields)
  have recs: "0 < length (frame_records sample_pair)"
    "frame_records sample_pair ! 0 = (sample_hand 1, Some ''Right'')"
    "Suc 0 < length (frame_records sample_pair)"
    "frame_records sample_pair ! Suc 0 = (sample_hand (1 / 2), Some ''Left'')"
    by (simp_all add: sample_pair_records)
  have c: "chordAtPosition (chordPosition (py \<lparr>px = 1 / 2, py = 1, pz = Some 0\<rparr>)) ready_state
      = Inr C_major_chord"
    by (simp add: chordPosition_top C_major_chord_0 ready_fields)
  have nt: "noteAtPosition (melodyPosition (py \<lparr>px = 1 / 2, py = 1 / 2, pz = Some 0\<rparr>))
      (selectedScale ready_state) ready_state = Inr (Str ''C5'')"
    by (simp add: melodyPosition_middle C_major_position_7 ready_fields)
  have first: "process_hands reliable (take 0 (frame_records sample_pair))
      (frame_start sample_pair ready_state) = (Inr (), s0)"
    by (simp add: pure_step_def s0_def)
  note record_0 = C4_label_Left_drives_melody [where c = C_major_chord,
      OF ready_fields(1,2,3,4) recs(1,2) first sample_hand_points(1,2)
         sample_hand_values(1) [symmetric] sample_hand_values(2) [symmetric] sa_def]
  have other: "''Right'' \<noteq> ''Left''" by simp
  from record_0 other c
  have harmony: "engine_log sa = engine_log s0
        @ accepted reliable [ReverbSetWet 1]
        @ accepted reliable
            (if rightHandVolume s0 \<noteq> 1 then [HarmonySetVolume (1 * (6 / 10))] else [])
        @ accepted reliable
            (if \<not> leftHandIsPlaying s0 then [HarmonyAttack (chord_notes C_major_chord) 0 (6 / 10)]
             else if chordChanged C_major_chord s0 then [HarmonyReleaseAll (Some (- (5 / 1000)))]
             else [])"
    "rightHandIsPlaying sa = rightHandIsPlaying s0" "lastMelodyNote sa = lastMelodyNote s0"
    "leftHandVolume sa = leftHandVolume s0"
    by blast+
  have log_a: "engine_log sa = [ReverbSetWet 1, HarmonySetVolume (6 / 10),
        HarmonyAttack [Str ''C3'', Str ''E3'', Str ''G3''] 0 (6 / 10)]"
    unfolding harmony(1) by (simp add: s0 accepted_simps reliable_ok C_major_chord_def)
  have "fst (processLeftHand reliable (sample_hand 1) s0) = Inr ()"
  proof (rule processLeftHand_fst)
    show "8 < length (sample_hand 1)" by (rule sample_hand_points)
    show "landmark_at (sample_hand 1) 0 = Some \<lparr>px = 1 / 2, py = 1, pz = Some 0\<rparr>"
      by (rule sample_hand_points)
    show "chordAtPosition (chordPosition (py \<lparr>px = 1 / 2, py = 1, pz = Some 0\<rparr>)) s0
        = Inr C_major_chord"
      by (simp add: chordPosition_top C_major_chord_0 s0)
  qed (simp_all add: sample_hand_points)
  then have "fst (process_hands reliable (take (Suc 0) (frame_records sample_pair)) s0) = Inr ()"
    by (cases "processLeftHand reliable (sample_hand 1) s0")
       (simp add: sample_pair_records Let_def and_then_def pure_step_def)
  then have second: "process_hands reliable (take (Suc 0) (frame_records sample_pair))
      (frame_start sample_pair ready_state) = (Inr (), sa)"
    unfolding sa_def s0_def by (simp add: prod_eq_iff)
  note record_1 = C4_label_Left_drives_melody [where nv = "Str ''C5''",
      OF ready_fields(1,2,3,4) recs(3,4) second sample_hand_points(1,2)
         sample_hand_values(1) [symmetric] sample_hand_values(2) [symmetric] sb_def]
  from record_1 nt
  have melody: "engine_log sb = engine_log sa
        @ accepted reliable [ReverbSetWet 1]
        @ accepted reliable (if leftHandVolume sa \<noteq> 1 then [MelodySetVolume 1] else [])
        @ accepted reliable
            (if \<not> rightHandIsPlaying sa then [MelodyAttack (Str ''C5'') 0 (8 / 10)]
             else if strict_neq (Some (Str ''C5'')) (lastMelodyNote sa)
             then [MelodyRelease (Some (2 / 100)), MelodyAttack (Str ''C5'') (7 / 100) (7 / 10)]
             else [])"
    by blast
  have log_b: "engine_log sb = engine_log sa
        @ [ReverbSetWet 1, MelodySetVolume 1, MelodyAttack (Str ''C5'') 0 (8 / 10)]"
    unfolding melody by (simp add: harmony(2,3,4) s0 accepted_simps reliable_ok)
  show ?thesis
    using log_a log_b unfolding sa_def sb_def by simp
qed

end
